theory Spec2Isabelle
  imports Complex_Main "HOL-Library.Word" "HOL-Library.Signed_Division"
begin

section \<open>PlayAudioEngine (oboe/hello-oboe): data model\<close>

text \<open>
  The engine of \<^verbatim>\<open>PlayAudioEngine.cpp\<close> talks to a platform audio stream (an
  \<^verbatim>\<open>OboeStream\<close>), a latency tuner, two sine oscillators, a trace sink, a logger and a
  clock. None of them is part of the file: every call into them is recorded, in program
  order, in the \<open>trace\<close> field of the engine state, and what the platform answers is an
  argument of the model (the \<open>*_env\<close> records below).

  C++ \<^verbatim>\<open>int32_t\<close> and \<^verbatim>\<open>int64_t\<close> are words; \<open>+\<close>, \<open>-\<close> and \<open>*\<close> wrap around, as the
  two's complement hardware does. \<^verbatim>\<open>size_t\<close> is the 64-bit unsigned word of the LP64 ABI.
  A \<^verbatim>\<open>double\<close> is represented by the real number it approximates: the rounding of the
  conversion from \<^verbatim>\<open>int64_t\<close> and of the floating-point division is not modelled.
\<close>

type_synonym int32_t = "32 word"
type_synonym int64_t = "64 word"
type_synonym size_t = "64 word"
type_synonym uint8_t = "8 word"
type_synonym double = real

text \<open>An \<^verbatim>\<open>OboeStream *\<close> is \<open>None\<close> (\<^verbatim>\<open>nullptr\<close>) or the identity of a stream object.\<close>

type_synonym stream_ptr = nat
type_synonym thread_ptr = nat

text \<open>
  The result codes of the Oboe headers. The source names three of them; every other code
  is \<open>OBOE_ERROR_OTHER\<close> with its number.
\<close>

datatype oboe_result_t =
    OBOE_OK
  | OBOE_ERROR_DISCONNECTED
  | OBOE_ERROR_UNIMPLEMENTED
  | OBOE_ERROR_OTHER int32_t

datatype oboe_audio_format_t =
    OBOE_AUDIO_FORMAT_PCM_FLOAT
  | OBOE_AUDIO_FORMAT_PCM_I16
  | OBOE_AUDIO_FORMAT_OTHER

datatype oboe_data_callback_result_t =
    OBOE_CALLBACK_RESULT_CONTINUE
  | OBOE_CALLBACK_RESULT_STOP

datatype oboe_sharing_mode_t = OBOE_SHARING_MODE_EXCLUSIVE | OBOE_SHARING_MODE_SHARED

datatype oboe_performance_mode_t =
    OBOE_PERFORMANCE_MODE_NONE
  | OBOE_PERFORMANCE_MODE_POWER_SAVING
  | OBOE_PERFORMANCE_MODE_LOW_LATENCY

text \<open>An \<^verbatim>\<open>OboeStreamBuilder\<close>: a field is \<open>None\<close> until its setter has been called.\<close>

record OboeStreamBuilder =
  builderDeviceId :: "int32_t option"
  builderChannelCount :: "int32_t option"
  builderSharingMode :: "oboe_sharing_mode_t option"
  builderPerformanceMode :: "oboe_performance_mode_t option"
  builderCallbackSet :: bool

datatype oscillator = SineOscLeft | SineOscRight

text \<open>
  What the engine does to the outside world, one event per call. A \<^verbatim>\<open>LOGE\<close> carries its
  format string and the result code printed by \<^verbatim>\<open>Oboe_convertResultToText\<close>.
\<close>

datatype event =
    LOGE string oboe_result_t
  | LOGI string
  | LOGW string
  | OpenStream OboeStreamBuilder
  | GetSampleRate stream_ptr
  | GetFramesPerBurst stream_ptr
  | GetDeviceId stream_ptr
  | GetBufferSizeInFrames stream_ptr
  | SetBufferSizeInFrames stream_ptr int32_t
  | GetXRunCount stream_ptr
  | GetFormat stream_ptr
  | GetTimestamp stream_ptr
  | GetFramesWritten stream_ptr
  | RequestStart stream_ptr
  | RequestStop stream_ptr
  | CloseStream stream_ptr
  | OscSetup oscillator nat int32_t
  | NewLatencyTuner stream_ptr
  | Tune "stream_ptr option"
  | Render oscillator oboe_audio_format_t nat int32_t int32_t
  | Memset size_t
  | TraceInitialize
  | TraceBeginSection int32_t int32_t int32_t
  | TraceEndSection
  | ClockGetNanoseconds
  | NewRestartThread thread_ptr

text \<open>The fields of \<^verbatim>\<open>PlayAudioEngine\<close> that the source file reads or writes.\<close>

record engine =
  mPlayStream :: "stream_ptr option"
  mPlaybackDeviceId :: int32_t
  mSampleRate :: int32_t
  mSampleChannels :: int32_t
  mIsToneOn :: bool
  mFramesPerBurst :: int32_t
  mCurrentOutputLatencyMillis :: double
  mBufferSizeSelection :: int32_t
  mIsLatencyDetectionSupported :: bool
  mLatencyTuner :: "stream_ptr option"
  mStreamRestartThread :: "thread_ptr option"
  mRestartingLock :: bool
  trace :: "event list"

definition emit :: "event \<Rightarrow> engine \<Rightarrow> engine" where
  "emit ev e = e\<lparr>trace := trace e @ [ev]\<rparr>"

text \<open>The events a call added to the trace of the state it started from.\<close>

definition emitted :: "engine \<Rightarrow> engine \<Rightarrow> event list" where
  "emitted e e' = drop (length (trace e)) (trace e')"

text \<open>
  What stops the program instead of returning: an integer division the hardware traps
  on, or a call through a null pointer.
\<close>

datatype fault = DivideByZero | DivideOverflow | NullPointerDereference

definition kAudioSampleChannels :: int32_t where
  "kAudioSampleChannels = 2"

definition kNanosPerMillisecond :: int64_t where
  "kNanosPerMillisecond = 1000000"

text \<open>
  Modelled from the spec: \<^verbatim>\<open>OBOE_NANOS_PER_SECOND\<close> is a macro of the Oboe headers, which
  are not among the sources; the spec has it as ``1 second in nanoseconds''. Its factor
  \<open>frameIndexDelta\<close> is an \<^verbatim>\<open>int64_t\<close>, so the product is taken in 64 bits whatever the
  macro's own integer type.
\<close>

definition OBOE_NANOS_PER_SECOND :: int64_t where
  "OBOE_NANOS_PER_SECOND = 1000000000"

text \<open>
  C++ \<^verbatim>\<open>/\<close> on \<^verbatim>\<open>int64_t\<close>: the quotient is truncated towards zero; a zero divisor and
  \<^verbatim>\<open>INT64_MIN / -1\<close> have no result.
\<close>

definition int64_div :: "int64_t \<Rightarrow> int64_t \<Rightarrow> fault + int64_t" where
  "int64_div a b =
     (if b = 0 then Inl DivideByZero
      else if sint a = - (2 ^ 63) \<and> sint b = - 1 then Inl DivideOverflow
      else Inr (word_of_int (sint a sdiv sint b)))"

definition int64_to_double :: "int64_t \<Rightarrow> double" where
  "int64_to_double x = real_of_int (sint x)"

section \<open>Latency estimation\<close>

text \<open>
  What the platform answers during one data callback: the buffer size at entry and after
  a resize request, the underrun count, the sample format, the timestamp query (its
  result and the two values it stores), the frames-written counter, the monotonic clock,
  and what a renderer writes into the caller's buffer.
\<close>

type_synonym memory = "nat \<Rightarrow> uint8_t"

record callback_env =
  bufferSizeAtEntry :: int32_t
  bufferSizeAfterSet :: int32_t
  xRunCount :: int32_t
  streamFormat :: oboe_audio_format_t
  timestampResult :: oboe_result_t
  timestampFrameIndex :: int64_t
  timestampTime :: int64_t
  framesWritten :: int64_t
  clockNanoseconds :: int64_t
  renderer :: "oscillator \<Rightarrow> oboe_audio_format_t \<Rightarrow> nat \<Rightarrow> int32_t \<Rightarrow> int32_t \<Rightarrow> memory \<Rightarrow> memory"

text \<open>
  \<^verbatim>\<open>calculateCurrentOutputLatencyMillis(stream, latencyMillis)\<close>. The \<^verbatim>\<open>double\<close> behind
  the pointer is passed in and returned: a timestamp error leaves it as it was.
\<close>

definition calculateCurrentOutputLatencyMillis ::
  "callback_env \<Rightarrow> stream_ptr \<Rightarrow> double \<Rightarrow> engine \<Rightarrow> (fault + oboe_result_t) \<times> double \<times> engine" where
  "calculateCurrentOutputLatencyMillis env stream latencyMillis e =
     (let e1 = emit (GetTimestamp stream) e;
          existingFrameIndex = timestampFrameIndex env;
          existingFramePresentationTime = timestampTime env;
          result = timestampResult env
      in if result = OBOE_OK then
           (let e2 = emit (GetFramesWritten stream) e1;
                writeIndex = framesWritten env;
                frameIndexDelta = writeIndex - existingFrameIndex
            in case int64_div (frameIndexDelta * OBOE_NANOS_PER_SECOND) (scast (mSampleRate e2)) of
                 Inl f \<Rightarrow> (Inl f, latencyMillis, e2)
               | Inr frameTimeDelta \<Rightarrow>
                   (let nextFramePresentationTime = existingFramePresentationTime + frameTimeDelta;
                        e3 = emit ClockGetNanoseconds e2;
                        nextFrameWriteTime = clockNanoseconds env
                    in (Inr result,
                        int64_to_double (nextFramePresentationTime - nextFrameWriteTime)
                          / int64_to_double kNanosPerMillisecond,
                        e3)))
         else (Inr result, latencyMillis,
               emit (LOGE ''Error calculating latency: %s'' result) e1))"

text \<open>
  The estimate as the spec words it, over the integers:
  \<open>delta_frames = frames_written - presented_frame_index\<close>,
  \<open>delta_time = delta_frames * 1000000000 div sample_rate\<close>,
  \<open>latency_ms = (presented_time + delta_time - now) / 1000000\<close>.
\<close>

definition spec_delta_time :: "int \<Rightarrow> int \<Rightarrow> int" where
  "spec_delta_time delta_frames sample_rate = delta_frames * 1000000000 div sample_rate"

definition spec_latency_ms :: "int \<Rightarrow> int \<Rightarrow> int \<Rightarrow> int \<Rightarrow> int \<Rightarrow> real" where
  "spec_latency_ms presented_frame_index presented_time frames_written sample_rate now =
     real_of_int
       (presented_time
          + spec_delta_time (frames_written - presented_frame_index) sample_rate - now)
       / 1000000"

definition in_int64 :: "int \<Rightarrow> bool" where
  "in_int64 x = (- (2 ^ 63) \<le> x \<and> x < 2 ^ 63)"

definition in_int32 :: "int \<Rightarrow> bool" where
  "in_int32 x = (- (2 ^ 31) \<le> x \<and> x < 2 ^ 31)"

section \<open>Opening and closing the stream\<close>

text \<open>
  What the platform answers while a stream is opened: the result of
  \<^verbatim>\<open>builder.openStream(&mPlayStream)\<close> and the pointer \<^verbatim>\<open>mPlayStream\<close> holds when that call
  returns, the new stream's sample rate and burst size, the result of \<^verbatim>\<open>requestStart\<close>
  and the result of the probing \<^verbatim>\<open>getTimestamp\<close>.
\<close>

record open_env =
  openResult :: oboe_result_t
  openedStream :: "stream_ptr option"
  streamSampleRate :: int32_t
  streamFramesPerBurst :: int32_t
  startResult :: oboe_result_t
  probeResult :: oboe_result_t

record close_env =
  stopResult :: oboe_result_t
  closeResult :: oboe_result_t

record restart_env =
  closeEnv :: close_env
  openEnv :: open_env

record device_env =
  streamDeviceId :: int32_t
  restartEnv :: restart_env

definition newOboeStreamBuilder :: OboeStreamBuilder where
  "newOboeStreamBuilder =
     \<lparr>builderDeviceId = None, builderChannelCount = None, builderSharingMode = None,
      builderPerformanceMode = None, builderCallbackSet = False\<rparr>"

definition setupPlaybackStreamParameters :: "engine \<Rightarrow> OboeStreamBuilder \<Rightarrow> OboeStreamBuilder" where
  "setupPlaybackStreamParameters e builder =
     builder\<lparr>builderDeviceId := Some (mPlaybackDeviceId e),
             builderChannelCount := Some (mSampleChannels e),
             builderSharingMode := Some OBOE_SHARING_MODE_EXCLUSIVE,
             builderPerformanceMode := Some OBOE_PERFORMANCE_MODE_LOW_LATENCY,
             builderCallbackSet := True\<rparr>"

text \<open>The oscillators are set up at 440 Hz and 660 Hz with the stream's sample rate.\<close>

definition prepareOscillators :: "engine \<Rightarrow> engine" where
  "prepareOscillators e =
     emit (OscSetup SineOscRight 660 (mSampleRate e))
       (emit (OscSetup SineOscLeft 440 (mSampleRate e)) e)"

definition createPlaybackStream :: "open_env \<Rightarrow> engine \<Rightarrow> engine" where
  "createPlaybackStream env e =
     (let builder = setupPlaybackStreamParameters e newOboeStreamBuilder;
          result = openResult env;
          e1 = emit (OpenStream builder) (e\<lparr>mPlayStream := openedStream env\<rparr>);
          failed = emit (LOGE ''Failed to create stream. Error: %s'' result) e1
      in case mPlayStream e1 of
           None \<Rightarrow> failed
         | Some s \<Rightarrow>
             if result = OBOE_OK then
               (let e2 = (emit (GetSampleRate s) e1)\<lparr>mSampleRate := streamSampleRate env\<rparr>;
                    e3 = (emit (GetFramesPerBurst s) e2)\<lparr>mFramesPerBurst := streamFramesPerBurst env\<rparr>;
                    e4 = emit (SetBufferSizeInFrames s (mFramesPerBurst e3)) e3;
                    e5 = prepareOscillators e4;
                    e6 = (emit (NewLatencyTuner s) e5)\<lparr>mLatencyTuner := Some s\<rparr>;
                    result' = startResult env;
                    e7 = emit (RequestStart s) e6;
                    e8 = (if result' \<noteq> OBOE_OK
                          then emit (LOGE ''Error starting stream. %s'' result') e7 else e7);
                    e9 = emit (GetTimestamp s) e8
                in e9\<lparr>mIsLatencyDetectionSupported := (probeResult env \<noteq> OBOE_ERROR_UNIMPLEMENTED)\<rparr>)
             else failed)"

definition closeOutputStream :: "close_env \<Rightarrow> engine \<Rightarrow> engine" where
  "closeOutputStream env e =
     (case mPlayStream e of
        None \<Rightarrow> e
      | Some s \<Rightarrow>
          (let result = stopResult env;
               e1 = emit (RequestStop s) e;
               e2 = (if result \<noteq> OBOE_OK
                     then emit (LOGE ''Error stopping output stream. %s'' result) e1 else e1);
               result' = closeResult env;
               e3 = emit (CloseStream s) e2
           in if result' \<noteq> OBOE_OK
              then emit (LOGE ''Error closing output stream. %s'' result') e3 else e3))"

text \<open>
  The constructor and the destructor. The default member initialisers are in
  \<^verbatim>\<open>PlayAudioEngine.h\<close>; the state they give is the argument \<open>e\<close> of the constructor.
\<close>

definition PlayAudioEngine_new :: "open_env \<Rightarrow> engine \<Rightarrow> engine" where
  "PlayAudioEngine_new env e =
     createPlaybackStream env ((emit TraceInitialize e)\<lparr>mSampleChannels := kAudioSampleChannels\<rparr>)"

definition PlayAudioEngine_delete :: "close_env \<Rightarrow> engine \<Rightarrow> engine" where
  "PlayAudioEngine_delete env e = closeOutputStream env e"

definition setToneOn :: "bool \<Rightarrow> engine \<Rightarrow> engine" where
  "setToneOn isToneOn e = e\<lparr>mIsToneOn := isToneOn\<rparr>"

definition getCurrentOutputLatencyMillis :: "engine \<Rightarrow> double" where
  "getCurrentOutputLatencyMillis e = mCurrentOutputLatencyMillis e"

definition setBufferSizeInBursts :: "int32_t \<Rightarrow> engine \<Rightarrow> engine" where
  "setBufferSizeInBursts numBursts e = e\<lparr>mBufferSizeSelection := numBursts\<rparr>"

section \<open>The data callback\<close>

text \<open>
  A renderer call and \<^verbatim>\<open>memset\<close>, acting on the caller's buffer (bytes counted from
  \<^verbatim>\<open>audioData\<close>) and leaving their event. A renderer starts \<open>offset\<close> samples into the
  buffer; what it writes is the platform's \<open>renderer\<close>.
\<close>

definition render ::
  "callback_env \<Rightarrow> oscillator \<Rightarrow> oboe_audio_format_t \<Rightarrow> nat \<Rightarrow> int32_t \<Rightarrow> int32_t
     \<Rightarrow> memory \<times> engine \<Rightarrow> memory \<times> engine" where
  "render env osc fmt offset stride numFrames me =
     (renderer env osc fmt offset stride numFrames (fst me),
      emit (Render osc fmt offset stride numFrames) (snd me))"

definition memset_zero :: "size_t \<Rightarrow> memory \<times> engine \<Rightarrow> memory \<times> engine" where
  "memset_zero n me = ((\<lambda>i. if i < unat n then 0 else fst me i), emit (Memset n) (snd me))"

text \<open>
  \<^verbatim>\<open>onAudioReady(audioStream, audioData, numFrames)\<close>, in three blocks and their
  composition. \<^verbatim>\<open>kBufferSizeAutomatic\<close> is a constant of \<^verbatim>\<open>PlayAudioEngine.h\<close> and an
  argument here. The tuner exists whenever the callback runs: \<^verbatim>\<open>createPlaybackStream\<close>
  installs it before it starts the stream.

  Lines 153 to 158: the buffer size is tuned, or set to the selected number of bursts and
  read again, or left alone. The block returns the value of the local \<^verbatim>\<open>bufferSize\<close>.
\<close>

definition onAudioReady_bufferSize ::
  "int32_t \<Rightarrow> callback_env \<Rightarrow> stream_ptr \<Rightarrow> engine \<Rightarrow> int32_t \<times> engine" where
  "onAudioReady_bufferSize kBufferSizeAutomatic env audioStream e1 =
     (if mBufferSizeSelection e1 = kBufferSizeAutomatic then
        (bufferSizeAtEntry env, emit (Tune (mLatencyTuner e1)) e1)
      else if bufferSizeAtEntry env \<noteq> mBufferSizeSelection e1 * mFramesPerBurst e1 then
        (bufferSizeAfterSet env,
         emit (GetBufferSizeInFrames audioStream)
           (emit (SetBufferSizeInFrames audioStream
                    (mBufferSizeSelection e1 * mFramesPerBurst e1)) e1))
      else (bufferSizeAtEntry env, e1))"

text \<open>
  Lines 173 to 197: the buffer is rendered into or zero-filled. In
  \<^verbatim>\<open>sizeof(T) * samplesPerFrame * numFrames\<close> the two \<^verbatim>\<open>int32_t\<close> factors are converted
  to \<^verbatim>\<open>size_t\<close> (sign extension) and the product is taken in \<^verbatim>\<open>size_t\<close>.
\<close>

definition onAudioReady_fill ::
  "callback_env \<Rightarrow> int32_t \<Rightarrow> int32_t \<Rightarrow> memory \<times> engine \<Rightarrow> memory \<times> engine" where
  "onAudioReady_fill env samplesPerFrame numFrames me =
     (if streamFormat env = OBOE_AUDIO_FORMAT_PCM_FLOAT then
        (if mIsToneOn (snd me) then
           (let r = render env SineOscRight OBOE_AUDIO_FORMAT_PCM_FLOAT 0
                      samplesPerFrame numFrames me
            in if mSampleChannels (snd me) = 2
               then render env SineOscLeft OBOE_AUDIO_FORMAT_PCM_FLOAT 1
                      samplesPerFrame numFrames r
               else r)
         else memset_zero (4 * scast samplesPerFrame * scast numFrames) me)
      else
        (if mIsToneOn (snd me) then
           (let r = render env SineOscRight OBOE_AUDIO_FORMAT_PCM_I16 0
                      samplesPerFrame numFrames me
            in if mSampleChannels (snd me) = 2
               then render env SineOscLeft OBOE_AUDIO_FORMAT_PCM_I16 1
                      samplesPerFrame numFrames r
               else r)
         else memset_zero (2 * scast samplesPerFrame * scast numFrames) me))"

text \<open>
  Lines 199 to 204: the cached latency is recomputed where timestamps are supported, the
  trace section is closed and the callback returns. The result keeps the buffer and the
  engine state also when the latency calculation stops the program.
\<close>

definition onAudioReady_latency ::
  "callback_env \<Rightarrow> stream_ptr \<Rightarrow> memory \<times> engine
     \<Rightarrow> (fault + oboe_data_callback_result_t) \<times> memory \<times> engine" where
  "onAudioReady_latency env audioStream me =
     (if mIsLatencyDetectionSupported (snd me) then
        (case calculateCurrentOutputLatencyMillis env audioStream
                (mCurrentOutputLatencyMillis (snd me)) (snd me) of
           (Inl f, latencyMillis, e7) \<Rightarrow>
             (Inl f, fst me, e7\<lparr>mCurrentOutputLatencyMillis := latencyMillis\<rparr>)
         | (Inr result, latencyMillis, e7) \<Rightarrow>
             (Inr OBOE_CALLBACK_RESULT_CONTINUE, fst me,
              emit TraceEndSection (e7\<lparr>mCurrentOutputLatencyMillis := latencyMillis\<rparr>)))
      else (Inr OBOE_CALLBACK_RESULT_CONTINUE, fst me, emit TraceEndSection (snd me)))"

definition onAudioReady ::
  "int32_t \<Rightarrow> callback_env \<Rightarrow> stream_ptr \<Rightarrow> memory \<Rightarrow> int32_t \<Rightarrow> engine
     \<Rightarrow> (fault + oboe_data_callback_result_t) \<times> memory \<times> engine" where
  "onAudioReady kBufferSizeAutomatic env audioStream audioData numFrames e =
     (let e1 = emit (GetBufferSizeInFrames audioStream) e;
          (bufferSize, e2) = onAudioReady_bufferSize kBufferSizeAutomatic env audioStream e1;
          underrunCount = xRunCount env;
          e3 = emit (GetXRunCount audioStream) e2;
          e4 = emit (TraceBeginSection numFrames underrunCount bufferSize) e3;
          samplesPerFrame = mSampleChannels e4;
          e5 = emit (GetFormat audioStream) e4
      in onAudioReady_latency env audioStream
           (onAudioReady_fill env samplesPerFrame numFrames (audioData, e5)))"

section \<open>Errors, restart and device selection\<close>

text \<open>
  \<^verbatim>\<open>onError\<close>: on a disconnect a new thread object is created that runs
  \<^verbatim>\<open>restartStream\<close>; \<open>newThread\<close> is the pointer \<^verbatim>\<open>new std::thread\<close> returns.
\<close>

definition onError :: "thread_ptr \<Rightarrow> stream_ptr \<Rightarrow> oboe_result_t \<Rightarrow> engine \<Rightarrow> engine" where
  "onError newThread audioStream error e =
     (if error = OBOE_ERROR_DISCONNECTED
      then (emit (NewRestartThread newThread) e)\<lparr>mStreamRestartThread := Some newThread\<rparr>
      else e)"

text \<open>
  \<^verbatim>\<open>restartStream\<close>, run by one thread without interference. \<open>mRestartingLock\<close> tells
  whether the mutex is held; \<^verbatim>\<open>try_lock\<close> takes it exactly when it is free.
\<close>

definition restartStream :: "restart_env \<Rightarrow> engine \<Rightarrow> engine" where
  "restartStream env e =
     (let e1 = emit (LOGI ''Restarting stream'') e
      in if \<not> mRestartingLock e1 then
           (let e2 = e1\<lparr>mRestartingLock := True\<rparr>;
                e3 = closeOutputStream (closeEnv env) e2;
                e4 = createPlaybackStream (openEnv env) e3
            in e4\<lparr>mRestartingLock := False\<rparr>)
         else emit (LOGW ''Restart stream operation already in progress - ignoring this request'') e1)"

text \<open>
  \<^verbatim>\<open>setDeviceId\<close>: \<^verbatim>\<open>mPlayStream->getDeviceId()\<close> is a call through \<^verbatim>\<open>mPlayStream\<close>, which
  the other functions test against \<^verbatim>\<open>nullptr\<close>.
\<close>

definition setDeviceId :: "device_env \<Rightarrow> int32_t \<Rightarrow> engine \<Rightarrow> (fault + unit) \<times> engine" where
  "setDeviceId env deviceId e =
     (let e1 = e\<lparr>mPlaybackDeviceId := deviceId\<rparr>
      in case mPlayStream e1 of
           None \<Rightarrow> (Inl NullPointerDereference, e1)
         | Some s \<Rightarrow>
             (let currentDeviceId = streamDeviceId env;
                  e2 = emit (GetDeviceId s) e1
              in if deviceId \<noteq> currentDeviceId
                 then (Inr (), restartStream (restartEnv env) e2)
                 else (Inr (), e2)))"

section \<open>Restart requests on several threads\<close>

text \<open>
  \<^verbatim>\<open>onError\<close> runs \<^verbatim>\<open>restartStream\<close> on a thread of its own, and \<^verbatim>\<open>setDeviceId\<close> runs it
  on the caller's, so several executions of \<^verbatim>\<open>restartStream\<close> can overlap. Each thread
  is at one statement of the function; a step runs the statement of one thread on the
  shared engine. A schedule is the list of the threads that step, each with what the
  platform answers to it.
\<close>

datatype restart_pc =
    AtLog
  | AtTryLock
  | AtClose
  | AtCreate
  | AtUnlock
  | AtWarn
  | Completed
  | Dropped

record system =
  eng :: engine
  threads :: "restart_pc list"

definition thread_step :: "restart_env \<Rightarrow> nat \<Rightarrow> system \<Rightarrow> system" where
  "thread_step env t s =
     (if t < length (threads s) then
        (case threads s ! t of
           AtLog \<Rightarrow>
             \<lparr>eng = emit (LOGI ''Restarting stream'') (eng s),
              threads = (threads s)[t := AtTryLock]\<rparr>
         | AtTryLock \<Rightarrow>
             if \<not> mRestartingLock (eng s)
             then \<lparr>eng = (eng s)\<lparr>mRestartingLock := True\<rparr>, threads = (threads s)[t := AtClose]\<rparr>
             else \<lparr>eng = eng s, threads = (threads s)[t := AtWarn]\<rparr>
         | AtClose \<Rightarrow>
             \<lparr>eng = closeOutputStream (closeEnv env) (eng s),
              threads = (threads s)[t := AtCreate]\<rparr>
         | AtCreate \<Rightarrow>
             \<lparr>eng = createPlaybackStream (openEnv env) (eng s),
              threads = (threads s)[t := AtUnlock]\<rparr>
         | AtUnlock \<Rightarrow>
             \<lparr>eng = (eng s)\<lparr>mRestartingLock := False\<rparr>, threads = (threads s)[t := Completed]\<rparr>
         | AtWarn \<Rightarrow>
             \<lparr>eng = emit (LOGW ''Restart stream operation already in progress - ignoring this request'')
                     (eng s),
              threads = (threads s)[t := Dropped]\<rparr>
         | Completed \<Rightarrow> s
         | Dropped \<Rightarrow> s)
      else s)"

fun run :: "(nat \<times> restart_env) list \<Rightarrow> system \<Rightarrow> system" where
  "run [] s = s"
| "run (te # sched) s = run sched (thread_step (snd te) (fst te) s)"

definition requests :: "nat \<Rightarrow> engine \<Rightarrow> system" where
  "requests n e = \<lparr>eng = e, threads = replicate n AtLog\<rparr>"


fun returned :: "restart_pc \<Rightarrow> bool" where
  "returned Completed = True"
| "returned Dropped = True"
| "returned _ = False"






section \<open>The data callback in closed form\<close>

text \<open>
  What one data callback does, written out per block as a function of the state it
  starts from: the events it adds to the trace, the value of \<^verbatim>\<open>bufferSize\<close> it traces,
  the buffer it leaves, the cached latency it leaves and how it ends. Lemma
  \<open>onAudioReady_effect\<close> proves \<open>onAudioReady\<close> equal to this form.
\<close>

definition bufferSize_events :: "int32_t \<Rightarrow> callback_env \<Rightarrow> stream_ptr \<Rightarrow> engine \<Rightarrow> event list" where
  "bufferSize_events kBufferSizeAutomatic env audioStream e =
     (if mBufferSizeSelection e = kBufferSizeAutomatic then [Tune (mLatencyTuner e)]
      else if bufferSizeAtEntry env \<noteq> mBufferSizeSelection e * mFramesPerBurst e
      then [SetBufferSizeInFrames audioStream (mBufferSizeSelection e * mFramesPerBurst e),
            GetBufferSizeInFrames audioStream]
      else [])"

definition bufferSize_used :: "int32_t \<Rightarrow> callback_env \<Rightarrow> engine \<Rightarrow> int32_t" where
  "bufferSize_used kBufferSizeAutomatic env e =
     (if mBufferSizeSelection e \<noteq> kBufferSizeAutomatic
         \<and> bufferSizeAtEntry env \<noteq> mBufferSizeSelection e * mFramesPerBurst e
      then bufferSizeAfterSet env else bufferSizeAtEntry env)"

definition rendered_format :: "callback_env \<Rightarrow> oboe_audio_format_t" where
  "rendered_format env =
     (if streamFormat env = OBOE_AUDIO_FORMAT_PCM_FLOAT
      then OBOE_AUDIO_FORMAT_PCM_FLOAT else OBOE_AUDIO_FORMAT_PCM_I16)"

definition zeroed_bytes :: "callback_env \<Rightarrow> int32_t \<Rightarrow> engine \<Rightarrow> size_t" where
  "zeroed_bytes env numFrames e =
     (if streamFormat env = OBOE_AUDIO_FORMAT_PCM_FLOAT
      then 4 * scast (mSampleChannels e) * scast numFrames
      else 2 * scast (mSampleChannels e) * scast numFrames)"

definition fill_events :: "callback_env \<Rightarrow> int32_t \<Rightarrow> engine \<Rightarrow> event list" where
  "fill_events env numFrames e =
     (if mIsToneOn e then
        Render SineOscRight (rendered_format env) 0 (mSampleChannels e) numFrames
          # (if mSampleChannels e = 2
             then [Render SineOscLeft (rendered_format env) 1 (mSampleChannels e) numFrames]
             else [])
      else [Memset (zeroed_bytes env numFrames e)])"

definition filled :: "callback_env \<Rightarrow> int32_t \<Rightarrow> memory \<Rightarrow> engine \<Rightarrow> memory" where
  "filled env numFrames audioData e =
     (if mIsToneOn e then
        (let m = renderer env SineOscRight (rendered_format env) 0 (mSampleChannels e)
                   numFrames audioData
         in if mSampleChannels e = 2
            then renderer env SineOscLeft (rendered_format env) 1 (mSampleChannels e) numFrames m
            else m)
      else (\<lambda>i. if i < unat (zeroed_bytes env numFrames e) then 0 else audioData i))"

definition latency_outcome :: "callback_env \<Rightarrow> engine \<Rightarrow> fault + oboe_data_callback_result_t" where
  "latency_outcome env e =
     (if mIsLatencyDetectionSupported e \<and> timestampResult env = OBOE_OK then
        (case int64_div ((framesWritten env - timestampFrameIndex env) * OBOE_NANOS_PER_SECOND)
                (scast (mSampleRate e)) of
           Inl f \<Rightarrow> Inl f
         | Inr q \<Rightarrow> Inr OBOE_CALLBACK_RESULT_CONTINUE)
      else Inr OBOE_CALLBACK_RESULT_CONTINUE)"

definition latency_after :: "callback_env \<Rightarrow> engine \<Rightarrow> double" where
  "latency_after env e =
     (if mIsLatencyDetectionSupported e \<and> timestampResult env = OBOE_OK then
        (case int64_div ((framesWritten env - timestampFrameIndex env) * OBOE_NANOS_PER_SECOND)
                (scast (mSampleRate e)) of
           Inl f \<Rightarrow> mCurrentOutputLatencyMillis e
         | Inr q \<Rightarrow> int64_to_double (timestampTime env + q - clockNanoseconds env)
                      / int64_to_double kNanosPerMillisecond)
      else mCurrentOutputLatencyMillis e)"

definition latency_events :: "callback_env \<Rightarrow> stream_ptr \<Rightarrow> engine \<Rightarrow> event list" where
  "latency_events env audioStream e =
     (if mIsLatencyDetectionSupported e then
        (if timestampResult env = OBOE_OK then
           (case int64_div ((framesWritten env - timestampFrameIndex env) * OBOE_NANOS_PER_SECOND)
                   (scast (mSampleRate e)) of
              Inl f \<Rightarrow> [GetTimestamp audioStream, GetFramesWritten audioStream]
            | Inr q \<Rightarrow> [GetTimestamp audioStream, GetFramesWritten audioStream,
                        ClockGetNanoseconds, TraceEndSection])
         else [GetTimestamp audioStream,
               LOGE ''Error calculating latency: %s'' (timestampResult env), TraceEndSection])
      else [TraceEndSection])"

definition callback_events ::
  "int32_t \<Rightarrow> callback_env \<Rightarrow> stream_ptr \<Rightarrow> int32_t \<Rightarrow> engine \<Rightarrow> event list" where
  "callback_events kBufferSizeAutomatic env audioStream numFrames e =
     GetBufferSizeInFrames audioStream
       # bufferSize_events kBufferSizeAutomatic env audioStream e
       @ [GetXRunCount audioStream,
          TraceBeginSection numFrames (xRunCount env) (bufferSize_used kBufferSizeAutomatic env e),
          GetFormat audioStream]
       @ fill_events env numFrames e
       @ latency_events env audioStream e"

text \<open>
  The byte width the callback fills with: \<^verbatim>\<open>sizeof(float)\<close> for a float stream,
  \<^verbatim>\<open>sizeof(int16_t)\<close> for every other format.
\<close>

definition sample_size :: "oboe_audio_format_t \<Rightarrow> nat" where
  "sample_size fmt = (if fmt = OBOE_AUDIO_FORMAT_PCM_FLOAT then 4 else 2)"

section \<open>Reading a trace, and concrete states\<close>

text \<open>\<open>in_order xs ys\<close>: the events \<open>xs\<close> occur in \<open>ys\<close>, in this order.\<close>

fun in_order :: "event list \<Rightarrow> event list \<Rightarrow> bool" where
  "in_order [] ys = True"
| "in_order (x # xs) [] = False"
| "in_order (x # xs) (y # ys) = (if x = y then in_order xs ys else in_order (x # xs) ys)"

text \<open>Kinds of events.\<close>

fun is_log :: "event \<Rightarrow> bool" where
  "is_log (LOGE msg r) = True"
| "is_log (LOGI msg) = True"
| "is_log (LOGW msg) = True"
| "is_log _ = False"

fun is_SetBufferSizeInFrames :: "event \<Rightarrow> bool" where
  "is_SetBufferSizeInFrames (SetBufferSizeInFrames s n) = True"
| "is_SetBufferSizeInFrames _ = False"

fun is_Render :: "event \<Rightarrow> bool" where
  "is_Render (Render osc fmt offset stride n) = True"
| "is_Render _ = False"

fun is_Memset :: "event \<Rightarrow> bool" where
  "is_Memset (Memset n) = True"
| "is_Memset _ = False"

definition example_engine :: engine where
  "example_engine =
     \<lparr>mPlayStream = Some 1, mPlaybackDeviceId = 0, mSampleRate = 48000,
      mSampleChannels = 2, mIsToneOn = False, mFramesPerBurst = 192,
      mCurrentOutputLatencyMillis = 0, mBufferSizeSelection = 2,
      mIsLatencyDetectionSupported = True, mLatencyTuner = Some 1,
      mStreamRestartThread = None, mRestartingLock = False, trace = []\<rparr>"

definition example_close_env :: close_env where
  "example_close_env = \<lparr>stopResult = OBOE_ERROR_OTHER 5, closeResult = OBOE_OK\<rparr>"

definition example_open_env :: open_env where
  "example_open_env =
     \<lparr>openResult = OBOE_OK, openedStream = Some 2, streamSampleRate = 44100,
      streamFramesPerBurst = 96, startResult = OBOE_OK, probeResult = OBOE_OK\<rparr>"

definition example_start_failure :: open_env where
  "example_start_failure =
     \<lparr>openResult = OBOE_OK, openedStream = Some 2, streamSampleRate = 44100,
      streamFramesPerBurst = 96, startResult = OBOE_ERROR_OTHER 9, probeResult = OBOE_OK\<rparr>"

definition example_open_failure :: open_env where
  "example_open_failure =
     \<lparr>openResult = OBOE_ERROR_OTHER 3, openedStream = None, streamSampleRate = 0,
      streamFramesPerBurst = 0, startResult = OBOE_OK, probeResult = OBOE_OK\<rparr>"

text \<open>A callback 480 frames ahead of the last presented frame, 2 ms after it was presented.\<close>

definition example_callback_env :: callback_env where
  "example_callback_env =
     \<lparr>bufferSizeAtEntry = 192, bufferSizeAfterSet = 384, xRunCount = 0,
      streamFormat = OBOE_AUDIO_FORMAT_PCM_FLOAT, timestampResult = OBOE_OK,
      timestampFrameIndex = 96000, timestampTime = 5000000000, framesWritten = 96480,
      clockNanoseconds = 5002000000, renderer = (\<lambda>osc fmt offset stride n m. m)\<rparr>"

text \<open>A caller's buffer with every byte set.\<close>

definition example_buffer :: memory where
  "example_buffer = (\<lambda>i. 255)"

text \<open>The same callback with the write position \<open>2 ^ 34\<close> frames ahead.\<close>

definition example_far_ahead :: callback_env where
  "example_far_ahead =
     example_callback_env\<lparr>timestampFrameIndex := 0, timestampTime := 0,
       framesWritten := 17179869184, clockNanoseconds := 0\<rparr>"

text \<open>The same callback before the first timestamp is available.\<close>

definition example_no_timestamp :: callback_env where
  "example_no_timestamp = example_callback_env\<lparr>timestampResult := OBOE_ERROR_OTHER 11\<rparr>"

text \<open>
  \<open>example_engine\<close> selects 2 bursts of 192 frames. \<open>example_callback_env\<close> reads a buffer
  size of 192 at entry and 384 after the request; \<open>example_settled\<close> reads 384 at entry.
\<close>

definition example_settled :: callback_env where
  "example_settled = example_callback_env\<lparr>bufferSizeAtEntry := 384\<rparr>"

text \<open>An engine whose selection times its burst size is \<open>2 ^ 32\<close>.\<close>

definition example_wide_engine :: engine where
  "example_wide_engine = example_engine\<lparr>mBufferSizeSelection := 65536, mFramesPerBurst := 65536\<rparr>"

text \<open>An engine before its first stream is opened.\<close>

definition example_fresh_engine :: engine where
  "example_fresh_engine = example_engine\<lparr>mPlayStream := None, mLatencyTuner := None\<rparr>"

definition example_device_env :: device_env where
  "example_device_env =
     \<lparr>streamDeviceId = 7,
      restartEnv = \<lparr>closeEnv = example_close_env, openEnv = example_open_env\<rparr>\<rparr>"




section \<open>Properties\<close>

subsection \<open>Traces\<close>

lemma emitted_append: "trace e' = trace e @ evs \<Longrightarrow> emitted e e' = evs"
  by (simp add: emitted_def)

subsection \<open>64-bit arithmetic without overflow\<close>

lemma sint_word_of_int64: "in_int64 x \<Longrightarrow> sint (word_of_int x :: int64_t) = x"
  by (simp add: in_int64_def sint_sbintrunc' signed_take_bit_int_eq_self)

lemma sint_add64: "in_int64 (sint a + sint b) \<Longrightarrow> sint (a + b :: int64_t) = sint a + sint b"
  by (simp add: in_int64_def sint_word_ariths signed_take_bit_int_eq_self)

lemma sint_diff64: "in_int64 (sint a - sint b) \<Longrightarrow> sint (a - b :: int64_t) = sint a - sint b"
  by (simp add: in_int64_def sint_word_ariths signed_take_bit_int_eq_self)

lemma sint_mult64: "in_int64 (sint a * sint b) \<Longrightarrow> sint (a * b :: int64_t) = sint a * sint b"
  by (simp add: in_int64_def sint_word_ariths signed_take_bit_int_eq_self)

lemma sint_scast_int32: "sint (scast (r :: int32_t) :: int64_t) = sint r"
  by (simp add: sint_up_scast is_up)

lemma sint_OBOE_NANOS_PER_SECOND: "sint OBOE_NANOS_PER_SECOND = 1000000000"
  by (simp add: OBOE_NANOS_PER_SECOND_def)

lemma sdiv_nonneg_pos: "0 \<le> a \<Longrightarrow> 0 < b \<Longrightarrow> (a::int) sdiv b = a div b"
  by (simp add: signed_divide_int_def sgn_if)

lemma int64_div_nonneg_pos:
  assumes "0 \<le> sint a" and "0 < sint b"
  shows "int64_div a b = Inr (word_of_int (sint a div sint b))"
    and "sint (word_of_int (sint a div sint b) :: int64_t) = sint a div sint b"
proof -
  from assms(2) have "b \<noteq> 0" by auto
  moreover from assms(2) have "sint b \<noteq> - 1" by simp
  ultimately show "int64_div a b = Inr (word_of_int (sint a div sint b))"
    using assms by (simp add: int64_div_def sdiv_nonneg_pos)
  have "0 \<le> sint a div sint b" using assms by (simp add: pos_imp_zdiv_nonneg_iff)
  moreover have "sint a div sint b \<le> sint a"
    using assms(1) by (cases "sint a = 0") (simp_all add: int_div_le_self)
  moreover have "sint a < 2 ^ 63" using sint_lt [of a] by simp
  ultimately have "in_int64 (sint a div sint b)" by (simp add: in_int64_def)
  then show "sint (word_of_int (sint a div sint b) :: int64_t) = sint a div sint b"
    by (rule sint_word_of_int64)
qed

lemma frameTimeDelta_exact:
  assumes le: "sint pfi \<le> sint fw"
    and rate: "0 < sint (r :: int32_t)"
    and prod: "in_int64 ((sint fw - sint pfi) * 1000000000)"
  shows "\<exists>q. int64_div ((fw - pfi) * OBOE_NANOS_PER_SECOND) (scast r) = Inr q
           \<and> sint q = spec_delta_time (sint fw - sint pfi) (sint r)"
proof -
  have d0: "0 \<le> sint fw - sint pfi" using le by simp
  have "sint fw - sint pfi \<le> (sint fw - sint pfi) * 1000000000" using d0 by simp
  with prod d0 have "in_int64 (sint fw - sint pfi)" by (simp add: in_int64_def)
  then have delta: "sint (fw - pfi) = sint fw - sint pfi" by (rule sint_diff64)
  have p: "sint ((fw - pfi) * OBOE_NANOS_PER_SECOND) = (sint fw - sint pfi) * 1000000000"
    using prod by (simp add: sint_mult64 delta sint_OBOE_NANOS_PER_SECOND)
  have p0: "0 \<le> sint ((fw - pfi) * OBOE_NANOS_PER_SECOND)" using d0 by (simp add: p)
  have r0: "0 < sint (scast r :: int64_t)" using rate by (simp add: sint_scast_int32)
  show ?thesis
    using int64_div_nonneg_pos [OF p0 r0]
    by (simp add: p sint_scast_int32 spec_delta_time_def)
qed

subsection \<open>The latency estimate\<close>

text \<open>
  Claim C1, as amended. When the timestamp query succeeds, the written frame index is not
  behind the presented one, the sample rate is positive, and the frame delta times
  \<open>10^9\<close>, the predicted presentation time and its distance to the clock all fit in a
  signed 64-bit integer, the estimate is
  \<open>((presented_time + (frames_written - presented_frame_index) * 10^9 div sample_rate) - now) / 10^6\<close>
  milliseconds, computed over the integers up to the final division; it depends on
  nothing but these five values. With 480 frames at 48000 Hz the frame time delta is
  10,000,000 ns.
\<close>

theorem calculateCurrentOutputLatencyMillis_exact:
  assumes ok: "timestampResult env = OBOE_OK"
    and le: "sint (timestampFrameIndex env) \<le> sint (framesWritten env)"
    and rate: "0 < sint (mSampleRate e)"
    and prod: "in_int64 ((sint (framesWritten env) - sint (timestampFrameIndex env)) * 1000000000)"
    and sum: "in_int64 (sint (timestampTime env)
               + spec_delta_time (sint (framesWritten env) - sint (timestampFrameIndex env))
                   (sint (mSampleRate e)))"
    and diff: "in_int64 (sint (timestampTime env)
               + spec_delta_time (sint (framesWritten env) - sint (timestampFrameIndex env))
                   (sint (mSampleRate e))
               - sint (clockNanoseconds env))"
  shows "fst (calculateCurrentOutputLatencyMillis env stream latencyMillis e) = Inr OBOE_OK
       \<and> fst (snd (calculateCurrentOutputLatencyMillis env stream latencyMillis e))
           = spec_latency_ms (sint (timestampFrameIndex env)) (sint (timestampTime env))
               (sint (framesWritten env)) (sint (mSampleRate e)) (sint (clockNanoseconds env))
       \<and> int64_div (480 * OBOE_NANOS_PER_SECOND) (scast (48000 :: int32_t)) = Inr 10000000"
proof -
  obtain q where q: "int64_div ((framesWritten env - timestampFrameIndex env) * OBOE_NANOS_PER_SECOND)
                        (scast (mSampleRate e)) = Inr q"
    and sq: "sint q = spec_delta_time (sint (framesWritten env) - sint (timestampFrameIndex env))
                        (sint (mSampleRate e))"
    using frameTimeDelta_exact [OF le rate prod] by blast
  have s1: "sint (timestampTime env + q) = sint (timestampTime env) + sint q"
    using sum by (simp add: sint_add64 sq)
  have s2: "sint (timestampTime env + q - clockNanoseconds env)
              = sint (timestampTime env) + sint q - sint (clockNanoseconds env)"
    using diff by (simp add: sint_diff64 s1 sq)
  have l: "int64_to_double (timestampTime env + q - clockNanoseconds env)
             = real_of_int (sint (timestampTime env)
                 + spec_delta_time (sint (framesWritten env) - sint (timestampFrameIndex env))
                     (sint (mSampleRate e))
                 - sint (clockNanoseconds env))"
    unfolding int64_to_double_def s2 sq ..
  have k: "int64_to_double kNanosPerMillisecond = 1000000"
    by (simp add: int64_to_double_def kNanosPerMillisecond_def)
  have ex: "int64_div (480 * OBOE_NANOS_PER_SECOND) (scast (48000 :: int32_t)) = Inr 10000000"
    by (simp add: int64_div_def OBOE_NANOS_PER_SECOND_def signed_divide_int_def)
  show ?thesis
    using ok q ex
    by (simp add: calculateCurrentOutputLatencyMillis_def Let_def emit_def l k
        spec_latency_ms_def)
qed

theorem calculateCurrentOutputLatencyMillis_exact_witness:
  "timestampResult example_callback_env = OBOE_OK
   \<and> sint (timestampFrameIndex example_callback_env) \<le> sint (framesWritten example_callback_env)
   \<and> 0 < sint (mSampleRate example_engine)
   \<and> fst (calculateCurrentOutputLatencyMillis example_callback_env 1 0 example_engine) = Inr OBOE_OK
   \<and> fst (snd (calculateCurrentOutputLatencyMillis example_callback_env 1 0 example_engine)) = 8"
proof -
  have 1: "timestampResult example_callback_env = OBOE_OK"
    by (simp add: example_callback_env_def)
  have 2: "sint (timestampFrameIndex example_callback_env) \<le> sint (framesWritten example_callback_env)"
    by (simp add: example_callback_env_def)
  have 3: "0 < sint (mSampleRate example_engine)"
    by (simp add: example_engine_def)
  have 4: "in_int64 ((sint (framesWritten example_callback_env)
             - sint (timestampFrameIndex example_callback_env)) * 1000000000)"
    by (simp add: example_callback_env_def in_int64_def)
  have 5: "in_int64 (sint (timestampTime example_callback_env)
               + spec_delta_time (sint (framesWritten example_callback_env)
                    - sint (timestampFrameIndex example_callback_env))
                   (sint (mSampleRate example_engine)))"
    by (simp add: example_callback_env_def example_engine_def in_int64_def spec_delta_time_def)
  have 6: "in_int64 (sint (timestampTime example_callback_env)
               + spec_delta_time (sint (framesWritten example_callback_env)
                    - sint (timestampFrameIndex example_callback_env))
                   (sint (mSampleRate example_engine))
               - sint (clockNanoseconds example_callback_env))"
    by (simp add: example_callback_env_def example_engine_def in_int64_def spec_delta_time_def)
  have 7: "spec_latency_ms (sint (timestampFrameIndex example_callback_env))
             (sint (timestampTime example_callback_env))
             (sint (framesWritten example_callback_env)) (sint (mSampleRate example_engine))
             (sint (clockNanoseconds example_callback_env)) = 8"
    by (simp add: example_callback_env_def example_engine_def spec_latency_ms_def
        spec_delta_time_def)
  show ?thesis
    using calculateCurrentOutputLatencyMillis_exact [OF 1 2 3 4 5 6, of 1 0] 1 2 3
    by (simp only: 7 simp_thms)
qed

text \<open>
  The claim as stated fails where the product leaves the 64-bit range: with the write
  position \<open>2 ^ 34\<close> frames ahead at 48000 Hz, \<open>frameIndexDelta * OBOE_NANOS_PER_SECOND\<close>
  wraps around and the estimate is not the value of the integer formula.
\<close>

theorem latency_estimate_wraps_when_far_ahead:
  "timestampResult example_far_ahead = OBOE_OK
   \<and> sint (timestampFrameIndex example_far_ahead) \<le> sint (framesWritten example_far_ahead)
   \<and> 0 < sint (mSampleRate example_engine)
   \<and> fst (snd (calculateCurrentOutputLatencyMillis example_far_ahead 1 0 example_engine))
       \<noteq> spec_latency_ms (sint (timestampFrameIndex example_far_ahead))
            (sint (timestampTime example_far_ahead)) (sint (framesWritten example_far_ahead))
            (sint (mSampleRate example_engine)) (sint (clockNanoseconds example_far_ahead))"
  by (simp add: calculateCurrentOutputLatencyMillis_def Let_def emit_def int64_to_double_def
      kNanosPerMillisecond_def spec_latency_ms_def example_far_ahead_def
      example_callback_env_def example_engine_def int64_div_def OBOE_NANOS_PER_SECOND_def
      signed_divide_int_def spec_delta_time_def)

subsection \<open>Closing the stream\<close>

text \<open>
  Claim C7. With a stream handle, \<^verbatim>\<open>closeOutputStream\<close> requests the stop and then the
  close, whatever the stop returned; a failure of either is reported by a \<^verbatim>\<open>LOGE\<close> of its
  own, right after the call; nothing else of the engine changes and the function returns
  normally. Without a stream handle it does nothing and reports nothing.
\<close>

theorem closeOutputStream_stop_then_close:
  "(mPlayStream e = None \<longrightarrow> closeOutputStream env e = e)
   \<and> (mPlayStream e = Some s \<longrightarrow>
        closeOutputStream env e =
          e\<lparr>trace := trace e
               @ [RequestStop s]
               @ (if stopResult env \<noteq> OBOE_OK
                  then [LOGE ''Error stopping output stream. %s'' (stopResult env)] else [])
               @ [CloseStream s]
               @ (if closeResult env \<noteq> OBOE_OK
                  then [LOGE ''Error closing output stream. %s'' (closeResult env)] else [])\<rparr>)"
  by (simp add: closeOutputStream_def emit_def Let_def)

theorem closeOutputStream_stop_then_close_witness:
  "mPlayStream example_engine = Some 1
   \<and> emitted example_engine (closeOutputStream example_close_env example_engine)
       = [RequestStop 1, LOGE ''Error stopping output stream. %s'' (OBOE_ERROR_OTHER 5), CloseStream 1]
   \<and> mPlayStream (example_engine\<lparr>mPlayStream := None\<rparr>) = None
   \<and> closeOutputStream example_close_env (example_engine\<lparr>mPlayStream := None\<rparr>)
       = example_engine\<lparr>mPlayStream := None\<rparr>"
  using closeOutputStream_stop_then_close [of example_engine example_close_env 1]
    closeOutputStream_stop_then_close [of "example_engine\<lparr>mPlayStream := None\<rparr>" example_close_env 1]
  by (simp add: example_engine_def example_close_env_def emitted_def)

subsection \<open>Opening the stream\<close>

lemma createPlaybackStream_opened:
  assumes "openResult env = OBOE_OK" and "openedStream env = Some s"
  shows "createPlaybackStream env e =
     e\<lparr>mPlayStream := Some s,
       mSampleRate := streamSampleRate env,
       mFramesPerBurst := streamFramesPerBurst env,
       mLatencyTuner := Some s,
       mIsLatencyDetectionSupported := (probeResult env \<noteq> OBOE_ERROR_UNIMPLEMENTED),
       trace := trace e
         @ [OpenStream (setupPlaybackStreamParameters e newOboeStreamBuilder),
            GetSampleRate s, GetFramesPerBurst s,
            SetBufferSizeInFrames s (streamFramesPerBurst env),
            OscSetup SineOscLeft 440 (streamSampleRate env),
            OscSetup SineOscRight 660 (streamSampleRate env),
            NewLatencyTuner s, RequestStart s]
         @ (if startResult env \<noteq> OBOE_OK
            then [LOGE ''Error starting stream. %s'' (startResult env)] else [])
         @ [GetTimestamp s]\<rparr>"
  using assms
  by (simp add: createPlaybackStream_def emit_def Let_def prepareOscillators_def)

lemma createPlaybackStream_not_opened:
  assumes "openResult env \<noteq> OBOE_OK \<or> openedStream env = None"
  shows "createPlaybackStream env e =
     e\<lparr>mPlayStream := openedStream env,
       trace := trace e
         @ [OpenStream (setupPlaybackStreamParameters e newOboeStreamBuilder),
            LOGE ''Failed to create stream. Error: %s'' (openResult env)]\<rparr>"
  using assms
  by (auto simp add: createPlaybackStream_def emit_def Let_def split: option.splits)


text \<open>
  Claim C2, as amended. When the platform's open call fails (or returns no stream), the
  engine reports ``Failed to create stream'' with the result, calls nothing else, and
  \<^verbatim>\<open>mPlayStream\<close> holds what the open call stored in it; the engine itself never clears
  it. When the stream was opened and the start request fails, the engine reports ``Error
  starting stream'' with the result and the opened stream stays installed: it is neither
  stopped nor closed.
\<close>

theorem createPlaybackStream_failure:
  "(openResult env \<noteq> OBOE_OK \<or> openedStream env = None \<longrightarrow>
      createPlaybackStream env e =
        e\<lparr>mPlayStream := openedStream env,
          trace := trace e
            @ [OpenStream (setupPlaybackStreamParameters e newOboeStreamBuilder),
               LOGE ''Failed to create stream. Error: %s'' (openResult env)]\<rparr>)
   \<and> (openResult env = OBOE_OK \<and> openedStream env = Some s \<and> startResult env \<noteq> OBOE_OK \<longrightarrow>
        LOGE ''Error starting stream. %s'' (startResult env)
          \<in> set (emitted e (createPlaybackStream env e))
        \<and> mPlayStream (createPlaybackStream env e) = Some s
        \<and> RequestStop s \<notin> set (emitted e (createPlaybackStream env e))
        \<and> CloseStream s \<notin> set (emitted e (createPlaybackStream env e)))"
proof (intro conjI impI)
  assume "openResult env \<noteq> OBOE_OK \<or> openedStream env = None"
  then show "createPlaybackStream env e =
        e\<lparr>mPlayStream := openedStream env,
          trace := trace e
            @ [OpenStream (setupPlaybackStreamParameters e newOboeStreamBuilder),
               LOGE ''Failed to create stream. Error: %s'' (openResult env)]\<rparr>"
    by (rule createPlaybackStream_not_opened)
next
  assume a: "openResult env = OBOE_OK \<and> openedStream env = Some s \<and> startResult env \<noteq> OBOE_OK"
  then have c: "createPlaybackStream env e = e\<lparr>mPlayStream := Some s,
       mSampleRate := streamSampleRate env,
       mFramesPerBurst := streamFramesPerBurst env,
       mLatencyTuner := Some s,
       mIsLatencyDetectionSupported := (probeResult env \<noteq> OBOE_ERROR_UNIMPLEMENTED),
       trace := trace e
         @ [OpenStream (setupPlaybackStreamParameters e newOboeStreamBuilder),
            GetSampleRate s, GetFramesPerBurst s,
            SetBufferSizeInFrames s (streamFramesPerBurst env),
            OscSetup SineOscLeft 440 (streamSampleRate env),
            OscSetup SineOscRight 660 (streamSampleRate env),
            NewLatencyTuner s, RequestStart s]
         @ (if startResult env \<noteq> OBOE_OK
            then [LOGE ''Error starting stream. %s'' (startResult env)] else [])
         @ [GetTimestamp s]\<rparr>"
    by (simp add: createPlaybackStream_opened)
  from a show "LOGE ''Error starting stream. %s'' (startResult env)
          \<in> set (emitted e (createPlaybackStream env e))"
    by (simp add: c emitted_def)
  show "mPlayStream (createPlaybackStream env e) = Some s" by (simp add: c)
  show "RequestStop s \<notin> set (emitted e (createPlaybackStream env e))"
    by (simp add: c emitted_def)
  show "CloseStream s \<notin> set (emitted e (createPlaybackStream env e))"
    by (simp add: c emitted_def)
qed

theorem createPlaybackStream_failure_witness:
  "openResult example_open_failure \<noteq> OBOE_OK
   \<and> mPlayStream (createPlaybackStream example_open_failure example_engine) = None
   \<and> emitted example_engine (createPlaybackStream example_open_failure example_engine)
       = [OpenStream (setupPlaybackStreamParameters example_engine newOboeStreamBuilder),
          LOGE ''Failed to create stream. Error: %s'' (OBOE_ERROR_OTHER 3)]
   \<and> openResult example_start_failure = OBOE_OK
   \<and> openedStream example_start_failure = Some 2
   \<and> startResult example_start_failure \<noteq> OBOE_OK
   \<and> LOGE ''Error starting stream. %s'' (OBOE_ERROR_OTHER 9)
        \<in> set (emitted example_engine (createPlaybackStream example_start_failure example_engine))
   \<and> mPlayStream (createPlaybackStream example_start_failure example_engine) = Some 2"
  using createPlaybackStream_failure [of example_open_failure example_engine 2]
    createPlaybackStream_failure [of example_start_failure example_engine 2]
  by (simp add: example_open_failure_def example_start_failure_def example_engine_def emitted_def)

text \<open>
  The claim as stated fails on a start failure: the stream that was opened is still the
  engine's \<^verbatim>\<open>mPlayStream\<close>.
\<close>

theorem start_failure_keeps_stream_handle:
  "openResult example_start_failure = OBOE_OK
   \<and> startResult example_start_failure = OBOE_ERROR_OTHER 9
   \<and> mPlayStream (createPlaybackStream example_start_failure example_engine) = Some 2"
  by (simp add: example_start_failure_def example_engine_def createPlaybackStream_def
      emit_def Let_def prepareOscillators_def)

text \<open>
  Claim C8, as amended. After a successful open the engine, in this order, reads and
  records the sample rate and the burst size, sets the buffer size to exactly one burst,
  sets up the oscillators, creates the latency tuner, requests the start (reporting its
  failure), and only then issues the one timestamp query whose result, compared with
  \<^verbatim>\<open>OBOE_ERROR_UNIMPLEMENTED\<close>, tells whether latency detection is supported.
\<close>

theorem createPlaybackStream_success_order:
  assumes "openResult env = OBOE_OK" and "openedStream env = Some s"
  shows "emitted e (createPlaybackStream env e) =
           [OpenStream (setupPlaybackStreamParameters e newOboeStreamBuilder),
            GetSampleRate s, GetFramesPerBurst s,
            SetBufferSizeInFrames s (streamFramesPerBurst env),
            OscSetup SineOscLeft 440 (streamSampleRate env),
            OscSetup SineOscRight 660 (streamSampleRate env),
            NewLatencyTuner s, RequestStart s]
           @ (if startResult env \<noteq> OBOE_OK
              then [LOGE ''Error starting stream. %s'' (startResult env)] else [])
           @ [GetTimestamp s]
       \<and> mSampleRate (createPlaybackStream env e) = streamSampleRate env
       \<and> mFramesPerBurst (createPlaybackStream env e) = streamFramesPerBurst env
       \<and> mIsLatencyDetectionSupported (createPlaybackStream env e)
           = (probeResult env \<noteq> OBOE_ERROR_UNIMPLEMENTED)
       \<and> in_order [GetSampleRate s, GetFramesPerBurst s,
                   SetBufferSizeInFrames s (streamFramesPerBurst env),
                   RequestStart s, GetTimestamp s]
           (emitted e (createPlaybackStream env e))"
  by (simp add: createPlaybackStream_opened [OF assms] emitted_def)

theorem createPlaybackStream_success_order_witness:
  "openResult example_open_env = OBOE_OK \<and> openedStream example_open_env = Some 2
   \<and> emitted example_engine (createPlaybackStream example_open_env example_engine) =
           [OpenStream (setupPlaybackStreamParameters example_engine newOboeStreamBuilder),
            GetSampleRate 2, GetFramesPerBurst 2,
            SetBufferSizeInFrames 2 96,
            OscSetup SineOscLeft 440 44100,
            OscSetup SineOscRight 660 44100,
            NewLatencyTuner 2, RequestStart 2, GetTimestamp 2]
   \<and> mSampleRate (createPlaybackStream example_open_env example_engine) = 44100
   \<and> mFramesPerBurst (createPlaybackStream example_open_env example_engine) = 96
   \<and> mIsLatencyDetectionSupported (createPlaybackStream example_open_env example_engine)"
proof -
  have 1: "openResult example_open_env = OBOE_OK" by (simp add: example_open_env_def)
  have 2: "openedStream example_open_env = Some 2" by (simp add: example_open_env_def)
  show ?thesis
    using createPlaybackStream_success_order [OF 1 2, of example_engine] 1 2
    by (simp add: example_open_env_def)
qed

text \<open>
  The claim as stated puts the probe before the start request; in the trace of a
  successful open the timestamp query comes after \<^verbatim>\<open>requestStart\<close>.
\<close>

theorem probe_follows_start:
  "openResult example_open_env = OBOE_OK \<and> openedStream example_open_env = Some 2
   \<and> startResult example_open_env = OBOE_OK
   \<and> \<not> in_order [SetBufferSizeInFrames 2 96, GetTimestamp 2, RequestStart 2]
         (emitted example_engine (createPlaybackStream example_open_env example_engine))"
  by (simp add: example_open_env_def example_engine_def createPlaybackStream_def
      emit_def Let_def prepareOscillators_def emitted_def)

subsection \<open>The error callback\<close>

text \<open>
  Claim C10. \<^verbatim>\<open>onError\<close> creates the thread that runs \<^verbatim>\<open>restartStream\<close> exactly when the
  error is \<^verbatim>\<open>OBOE_ERROR_DISCONNECTED\<close>; for every other code the engine state, its trace
  included, is unchanged: no restart, no report.
\<close>

theorem onError_restarts_on_disconnect_only:
  "(error \<noteq> OBOE_ERROR_DISCONNECTED \<longrightarrow> onError newThread audioStream error e = e)
   \<and> (error = OBOE_ERROR_DISCONNECTED \<longrightarrow>
        onError newThread audioStream error e =
          e\<lparr>mStreamRestartThread := Some newThread,
            trace := trace e @ [NewRestartThread newThread]\<rparr>)
   \<and> (NewRestartThread newThread \<in> set (emitted e (onError newThread audioStream error e)))
       = (error = OBOE_ERROR_DISCONNECTED)"
  by (simp add: onError_def emit_def emitted_def)

theorem onError_restarts_on_disconnect_only_witness:
  "OBOE_ERROR_UNIMPLEMENTED \<noteq> OBOE_ERROR_DISCONNECTED
   \<and> onError 4 1 OBOE_ERROR_UNIMPLEMENTED example_engine = example_engine
   \<and> emitted example_engine (onError 4 1 OBOE_ERROR_DISCONNECTED example_engine)
       = [NewRestartThread 4]
   \<and> mStreamRestartThread (onError 4 1 OBOE_ERROR_DISCONNECTED example_engine) = Some 4"
  using onError_restarts_on_disconnect_only [of OBOE_ERROR_UNIMPLEMENTED 4 1 example_engine]
    onError_restarts_on_disconnect_only [of OBOE_ERROR_DISCONNECTED 4 1 example_engine]
  by (simp add: emitted_def)

subsection \<open>Restart and device selection\<close>

lemma closeOutputStream_trace: "\<exists>evs. trace (closeOutputStream env e) = trace e @ evs"
  by (cases "mPlayStream e") (simp_all add: closeOutputStream_def emit_def Let_def)

lemma createPlaybackStream_trace: "\<exists>evs. trace (createPlaybackStream env e) = trace e @ evs"
proof (cases "openResult env = OBOE_OK \<and> openedStream env \<noteq> None")
  case True
  then obtain s where "openResult env = OBOE_OK" and "openedStream env = Some s" by auto
  then show ?thesis by (simp add: createPlaybackStream_opened)
next
  case False
  then have "openResult env \<noteq> OBOE_OK \<or> openedStream env = None" by simp
  then show ?thesis by (simp add: createPlaybackStream_not_opened)
qed

lemma closeOutputStream_fields:
  "mRestartingLock (closeOutputStream env e) = mRestartingLock e"
  "mPlaybackDeviceId (closeOutputStream env e) = mPlaybackDeviceId e"
  by (cases "mPlayStream e"; simp add: closeOutputStream_def emit_def Let_def)+

lemma createPlaybackStream_fields:
  "mRestartingLock (createPlaybackStream env e) = mRestartingLock e"
  "mPlaybackDeviceId (createPlaybackStream env e) = mPlaybackDeviceId e"
  by (cases "openedStream env";
      simp add: createPlaybackStream_def emit_def Let_def prepareOscillators_def)+

lemma restartStream_dropped:
  "mRestartingLock e \<Longrightarrow>
     restartStream env e =
       e\<lparr>trace := trace e @ [LOGI ''Restarting stream'',
            LOGW ''Restart stream operation already in progress - ignoring this request'']\<rparr>"
  by (simp add: restartStream_def emit_def Let_def)

lemma restartStream_mPlaybackDeviceId:
  "mPlaybackDeviceId (restartStream env e) = mPlaybackDeviceId e"
  by (simp add: restartStream_def Let_def emit_def closeOutputStream_fields
      createPlaybackStream_fields)

lemma restartStream_trace:
  "\<exists>evs. trace (restartStream env e) = trace e @ LOGI ''Restarting stream'' # evs"
proof (cases "mRestartingLock e")
  case True
  then show ?thesis by (simp add: restartStream_dropped)
next
  case False
  let ?e2 = "e\<lparr>trace := trace e @ [LOGI ''Restarting stream''], mRestartingLock := True\<rparr>"
  obtain evs where c: "trace (closeOutputStream (closeEnv env) ?e2) = trace ?e2 @ evs"
    using closeOutputStream_trace by blast
  obtain evs' where o: "trace (createPlaybackStream (openEnv env) (closeOutputStream (closeEnv env) ?e2))
      = trace (closeOutputStream (closeEnv env) ?e2) @ evs'"
    using createPlaybackStream_trace by blast
  from False show ?thesis
    by (simp add: restartStream_def Let_def emit_def c o)
qed

text \<open>
  With a live stream, \<^verbatim>\<open>setDeviceId(id)\<close> records \<open>id\<close> as the requested device, asks the
  stream for its device id, and runs \<^verbatim>\<open>restartStream\<close> to its end before it returns
  exactly when the two differ; with the id the stream already has, nothing is called on
  the stream but that query and no restart is made.
\<close>

lemma setDeviceId_restarts_iff_different:
  assumes "mPlayStream e = Some s"
  shows "fst (setDeviceId env deviceId e) = Inr ()
       \<and> mPlaybackDeviceId (snd (setDeviceId env deviceId e)) = deviceId
       \<and> (LOGI ''Restarting stream'' \<in> set (emitted e (snd (setDeviceId env deviceId e))))
           = (deviceId \<noteq> streamDeviceId env)
       \<and> (deviceId \<noteq> streamDeviceId env \<longrightarrow>
            snd (setDeviceId env deviceId e) =
              restartStream (restartEnv env)
                (e\<lparr>mPlaybackDeviceId := deviceId, trace := trace e @ [GetDeviceId s]\<rparr>))
       \<and> (deviceId = streamDeviceId env \<longrightarrow>
            snd (setDeviceId env deviceId e) =
              e\<lparr>mPlaybackDeviceId := deviceId, trace := trace e @ [GetDeviceId s]\<rparr>)"
proof (cases "deviceId = streamDeviceId env")
  case True
  with assms show ?thesis
    by (simp add: setDeviceId_def Let_def emit_def emitted_def)
next
  case False
  let ?e2 = "e\<lparr>mPlaybackDeviceId := deviceId, trace := trace e @ [GetDeviceId s]\<rparr>"
  have r: "snd (setDeviceId env deviceId e) = restartStream (restartEnv env) ?e2"
    and f: "fst (setDeviceId env deviceId e) = Inr ()"
    using assms False by (simp_all add: setDeviceId_def Let_def emit_def)
  obtain evs where t: "trace (restartStream (restartEnv env) ?e2)
      = trace ?e2 @ LOGI ''Restarting stream'' # evs"
    using restartStream_trace by blast
  have "LOGI ''Restarting stream'' \<in> set (emitted e (restartStream (restartEnv env) ?e2))"
    by (simp add: emitted_def t)
  moreover have "mPlaybackDeviceId (restartStream (restartEnv env) ?e2) = deviceId"
    by (simp add: restartStream_mPlaybackDeviceId)
  ultimately show ?thesis using False f by (simp add: r)
qed

lemma setDeviceId_restarts_iff_different_example:
  "mPlayStream example_engine = Some 1
   \<and> streamDeviceId example_device_env = 7
   \<and> fst (setDeviceId example_device_env 7 example_engine) = Inr ()
   \<and> snd (setDeviceId example_device_env 7 example_engine)
       = example_engine\<lparr>mPlaybackDeviceId := 7, trace := trace example_engine @ [GetDeviceId 1]\<rparr>
   \<and> LOGI ''Restarting stream''
       \<notin> set (emitted example_engine (snd (setDeviceId example_device_env 7 example_engine)))
   \<and> LOGI ''Restarting stream''
       \<in> set (emitted example_engine (snd (setDeviceId example_device_env 8 example_engine)))
   \<and> mPlaybackDeviceId (snd (setDeviceId example_device_env 8 example_engine)) = 8"
proof -
  have 1: "mPlayStream example_engine = Some 1" by (simp add: example_engine_def)
  have 2: "streamDeviceId example_device_env = 7" by (simp add: example_device_env_def)
  have same: "(7::int32_t) = streamDeviceId example_device_env" by (simp add: 2)
  have other: "(8::int32_t) \<noteq> streamDeviceId example_device_env" by (simp add: 2)
  note a = setDeviceId_restarts_iff_different [OF 1, of example_device_env 7]
  note b = setDeviceId_restarts_iff_different [OF 1, of example_device_env 8]
  from a same b other show ?thesis using 1 2 by blast
qed

text \<open>
  Claim C6. The claim is about every call of \<^verbatim>\<open>setDeviceId\<close>. On an engine that holds no
  stream, as after a constructor whose open failed, the call records the requested id
  and then calls \<^verbatim>\<open>getDeviceId\<close> through the null \<^verbatim>\<open>mPlayStream\<close>: it never reaches the
  comparison that decides on the restart. \<^verbatim>\<open>createPlaybackStream\<close> and
  \<^verbatim>\<open>closeOutputStream\<close> test the same pointer before they use it.
\<close>

theorem setDeviceId_without_stream:
  "openResult example_open_failure \<noteq> OBOE_OK
   \<and> mPlayStream (PlayAudioEngine_new example_open_failure example_fresh_engine) = None
   \<and> fst (setDeviceId example_device_env 8
            (PlayAudioEngine_new example_open_failure example_fresh_engine))
       = Inl NullPointerDereference
   \<and> mPlaybackDeviceId
        (snd (setDeviceId example_device_env 8
                (PlayAudioEngine_new example_open_failure example_fresh_engine))) = 8
   \<and> emitted (PlayAudioEngine_new example_open_failure example_fresh_engine)
        (snd (setDeviceId example_device_env 8
                (PlayAudioEngine_new example_open_failure example_fresh_engine))) = []"
  by (simp add: PlayAudioEngine_new_def createPlaybackStream_def setDeviceId_def
      example_open_failure_def example_fresh_engine_def example_engine_def emit_def emitted_def
      Let_def)

subsection \<open>The data callback\<close>

lemma emit_fields:
  "mSampleChannels (emit ev e) = mSampleChannels e"
  "mIsToneOn (emit ev e) = mIsToneOn e"
  "mBufferSizeSelection (emit ev e) = mBufferSizeSelection e"
  "mFramesPerBurst (emit ev e) = mFramesPerBurst e"
  "mLatencyTuner (emit ev e) = mLatencyTuner e"
  "mSampleRate (emit ev e) = mSampleRate e"
  "mIsLatencyDetectionSupported (emit ev e) = mIsLatencyDetectionSupported e"
  "mCurrentOutputLatencyMillis (emit ev e) = mCurrentOutputLatencyMillis e"
  "trace (emit ev e) = trace e @ [ev]"
  by (simp_all add: emit_def)


lemma bufferSize_block:
  "onAudioReady_bufferSize kAuto env s e =
     (bufferSize_used kAuto env e, e\<lparr>trace := trace e @ bufferSize_events kAuto env s e\<rparr>)"
  by (simp add: onAudioReady_bufferSize_def bufferSize_used_def bufferSize_events_def emit_def)

lemma fill_block:
  "onAudioReady_fill env (mSampleChannels e) n (mem, e) =
     (filled env n mem e, e\<lparr>trace := trace e @ fill_events env n e\<rparr>)"
  by (simp add: onAudioReady_fill_def filled_def fill_events_def rendered_format_def
      zeroed_bytes_def render_def memset_zero_def emit_def Let_def cong: if_cong)

lemma latency_block:
  "onAudioReady_latency env s (mem, e) =
     (latency_outcome env e, mem,
      e\<lparr>mCurrentOutputLatencyMillis := latency_after env e,
        trace := trace e @ latency_events env s e\<rparr>)"
  by (simp add: onAudioReady_latency_def calculateCurrentOutputLatencyMillis_def
      latency_outcome_def latency_after_def latency_events_def emit_def Let_def
      split: sum.splits)

lemma events_ignore_trace:
  "bufferSize_events kAuto env s (e\<lparr>trace := t\<rparr>) = bufferSize_events kAuto env s e"
  "bufferSize_used kAuto env (e\<lparr>trace := t\<rparr>) = bufferSize_used kAuto env e"
  "zeroed_bytes env n (e\<lparr>trace := t\<rparr>) = zeroed_bytes env n e"
  "fill_events env n (e\<lparr>trace := t\<rparr>) = fill_events env n e"
  "filled env n mem (e\<lparr>trace := t\<rparr>) = filled env n mem e"
  "latency_outcome env (e\<lparr>trace := t\<rparr>) = latency_outcome env e"
  "latency_after env (e\<lparr>trace := t\<rparr>) = latency_after env e"
  "latency_events env s (e\<lparr>trace := t\<rparr>) = latency_events env s e"
  by (simp_all add: bufferSize_events_def bufferSize_used_def zeroed_bytes_def fill_events_def
      filled_def latency_outcome_def latency_after_def latency_events_def Let_def
      cong: if_cong sum.case_cong)

lemma onAudioReady_effect:
  "onAudioReady kAuto env s mem n e =
     (latency_outcome env e, filled env n mem e,
      e\<lparr>mCurrentOutputLatencyMillis := latency_after env e,
        trace := trace e @ callback_events kAuto env s n e\<rparr>)"
proof -
  let ?e1 = "e\<lparr>trace := trace e @ [GetBufferSizeInFrames s]\<rparr>"
  let ?e5 = "e\<lparr>trace := trace e @ GetBufferSizeInFrames s # bufferSize_events kAuto env s e
               @ [GetXRunCount s, TraceBeginSection n (xRunCount env) (bufferSize_used kAuto env e),
                  GetFormat s]\<rparr>"
  have 1: "emit (GetBufferSizeInFrames s) e = ?e1" by (simp add: emit_def)
  have 2: "onAudioReady_bufferSize kAuto env s ?e1 =
             (bufferSize_used kAuto env e,
              e\<lparr>trace := trace e @ GetBufferSizeInFrames s # bufferSize_events kAuto env s e\<rparr>)"
    by (simp add: bufferSize_block events_ignore_trace)
  have 3: "onAudioReady_fill env (mSampleChannels ?e5) n (mem, ?e5) =
             (filled env n mem e, ?e5\<lparr>trace := trace ?e5 @ fill_events env n e\<rparr>)"
    by (simp only: fill_block events_ignore_trace)
  have 4: "mSampleChannels ?e5 = mSampleChannels e" by simp
  show ?thesis
    unfolding onAudioReady_def Let_def 1 2
    by (simp add: emit_def 3 [unfolded 4] latency_block events_ignore_trace callback_events_def)
qed

lemma in_order_append: "in_order xs ys \<Longrightarrow> in_order xs (ys @ zs)"
  by (induction xs ys rule: in_order.induct) (simp_all split: if_splits)

lemma emitted_effect:
  "emitted e (e\<lparr>mCurrentOutputLatencyMillis := l, trace := trace e @ evs\<rparr>) = evs"
  by (simp add: emitted_def)

lemma latency_outcome_never_stop: "latency_outcome env e \<noteq> Inr OBOE_CALLBACK_RESULT_STOP"
  by (simp add: latency_outcome_def split: sum.splits)

lemma log_events:
  "filter is_log (bufferSize_events kAuto env s e) = []"
  "filter is_log (fill_events env n e) = []"
  "filter is_log (latency_events env s e) =
     (if mIsLatencyDetectionSupported e \<and> timestampResult env \<noteq> OBOE_OK
      then [LOGE ''Error calculating latency: %s'' (timestampResult env)] else [])"
  by (simp_all add: bufferSize_events_def fill_events_def latency_events_def split: sum.splits)

text \<open>
  What a data callback does when its timestamp query fails: the cached latency keeps its
  value, the callback returns the continue directive, and one \<^verbatim>\<open>LOGE\<close> is written. No
  callback returns the stop directive.
\<close>

lemma onAudioReady_on_timestamp_error:
  "(mIsLatencyDetectionSupported e \<and> timestampResult env \<noteq> OBOE_OK \<longrightarrow>
      fst (onAudioReady kAuto env s mem n e) = Inr OBOE_CALLBACK_RESULT_CONTINUE
      \<and> mCurrentOutputLatencyMillis (snd (snd (onAudioReady kAuto env s mem n e)))
          = mCurrentOutputLatencyMillis e
      \<and> filter is_log (emitted e (snd (snd (onAudioReady kAuto env s mem n e))))
          = [LOGE ''Error calculating latency: %s'' (timestampResult env)])
   \<and> fst (onAudioReady kAuto env s mem n e) \<noteq> Inr OBOE_CALLBACK_RESULT_STOP"
proof (intro conjI impI)
  assume a: "mIsLatencyDetectionSupported e \<and> timestampResult env \<noteq> OBOE_OK"
  then show "fst (onAudioReady kAuto env s mem n e) = Inr OBOE_CALLBACK_RESULT_CONTINUE"
    by (simp add: onAudioReady_effect latency_outcome_def)
  from a show "mCurrentOutputLatencyMillis (snd (snd (onAudioReady kAuto env s mem n e)))
          = mCurrentOutputLatencyMillis e"
    by (simp add: onAudioReady_effect latency_after_def)
  from a show "filter is_log (emitted e (snd (snd (onAudioReady kAuto env s mem n e))))
          = [LOGE ''Error calculating latency: %s'' (timestampResult env)]"
    by (simp add: onAudioReady_effect emitted_effect callback_events_def log_events)
next
  show "fst (onAudioReady kAuto env s mem n e) \<noteq> Inr OBOE_CALLBACK_RESULT_STOP"
    by (simp add: onAudioReady_effect latency_outcome_never_stop)
qed

text \<open>
  Claim C3. The claim has a timestamp error absorbed silently, with no synchronous side
  channel. At a callback whose timestamp query fails the code does keep the cached
  latency and return the continue directive, but \<^verbatim>\<open>calculateCurrentOutputLatencyMillis\<close>
  writes a \<^verbatim>\<open>LOGE\<close> from inside the callback. The comment in \<^verbatim>\<open>onAudioReady\<close> has tracing
  preferred to logging inside the callback because tracing does not block, and the
  docstring of the function calls this error normal soon after a stream has started.
\<close>

theorem timestamp_error_is_logged:
  "mIsLatencyDetectionSupported example_engine
   \<and> timestampResult example_no_timestamp = OBOE_ERROR_OTHER 11
   \<and> fst (onAudioReady 0 example_no_timestamp 1 example_buffer 64 example_engine)
       = Inr OBOE_CALLBACK_RESULT_CONTINUE
   \<and> mCurrentOutputLatencyMillis
        (snd (snd (onAudioReady 0 example_no_timestamp 1 example_buffer 64 example_engine)))
       = mCurrentOutputLatencyMillis example_engine
   \<and> filter is_log
        (emitted example_engine
           (snd (snd (onAudioReady 0 example_no_timestamp 1 example_buffer 64 example_engine))))
       = [LOGE ''Error calculating latency: %s'' (OBOE_ERROR_OTHER 11)]"
  by (simp add: onAudioReady_def onAudioReady_bufferSize_def onAudioReady_fill_def
      onAudioReady_latency_def calculateCurrentOutputLatencyMillis_def memset_zero_def
      emit_def emitted_def Let_def example_engine_def example_no_timestamp_def
      example_callback_env_def)

lemma set_events:
  "filter is_SetBufferSizeInFrames (bufferSize_events kAuto env s e) =
     (if mBufferSizeSelection e \<noteq> kAuto
         \<and> bufferSizeAtEntry env \<noteq> mBufferSizeSelection e * mFramesPerBurst e
      then [SetBufferSizeInFrames s (mBufferSizeSelection e * mFramesPerBurst e)] else [])"
  "filter is_SetBufferSizeInFrames (fill_events env n e) = []"
  "filter is_SetBufferSizeInFrames (latency_events env s e) = []"
  by (simp_all add: bufferSize_events_def fill_events_def latency_events_def split: sum.splits)

text \<open>
  Fixed mode over the machine integers: \<open>M * B\<close> below is the engine's \<^verbatim>\<open>int32_t\<close>
  product, which is what the code compares with and requests.
\<close>

lemma fixed_buffer_size_requests:
  assumes fixed: "mBufferSizeSelection e \<noteq> kAuto"
  shows "(bufferSizeAtEntry env = mBufferSizeSelection e * mFramesPerBurst e \<longrightarrow>
            filter is_SetBufferSizeInFrames
              (emitted e (snd (snd (onAudioReady kAuto env s mem n e)))) = []
            \<and> in_order [GetBufferSizeInFrames s, GetXRunCount s,
                         TraceBeginSection n (xRunCount env) (bufferSizeAtEntry env)]
                (emitted e (snd (snd (onAudioReady kAuto env s mem n e)))))
       \<and> (bufferSizeAtEntry env \<noteq> mBufferSizeSelection e * mFramesPerBurst e \<longrightarrow>
            filter is_SetBufferSizeInFrames
              (emitted e (snd (snd (onAudioReady kAuto env s mem n e))))
              = [SetBufferSizeInFrames s (mBufferSizeSelection e * mFramesPerBurst e)]
            \<and> in_order [GetBufferSizeInFrames s,
                         SetBufferSizeInFrames s (mBufferSizeSelection e * mFramesPerBurst e),
                         GetBufferSizeInFrames s, GetXRunCount s,
                         TraceBeginSection n (xRunCount env) (bufferSizeAfterSet env)]
                (emitted e (snd (snd (onAudioReady kAuto env s mem n e)))))"
proof (intro conjI impI)
  assume eq: "bufferSizeAtEntry env = mBufferSizeSelection e * mFramesPerBurst e"
  show "filter is_SetBufferSizeInFrames
          (emitted e (snd (snd (onAudioReady kAuto env s mem n e)))) = []"
    using fixed eq
    by (simp add: onAudioReady_effect emitted_effect callback_events_def set_events)
  have ev: "emitted e (snd (snd (onAudioReady kAuto env s mem n e))) =
      [GetBufferSizeInFrames s, GetXRunCount s,
       TraceBeginSection n (xRunCount env) (bufferSizeAtEntry env), GetFormat s]
      @ (fill_events env n e @ latency_events env s e)"
    using fixed eq
    by (simp add: onAudioReady_effect emitted_effect callback_events_def bufferSize_events_def
        bufferSize_used_def)
  show "in_order [GetBufferSizeInFrames s, GetXRunCount s,
                  TraceBeginSection n (xRunCount env) (bufferSizeAtEntry env)]
          (emitted e (snd (snd (onAudioReady kAuto env s mem n e))))"
    unfolding ev by (rule in_order_append) simp
next
  assume ne: "bufferSizeAtEntry env \<noteq> mBufferSizeSelection e * mFramesPerBurst e"
  show "filter is_SetBufferSizeInFrames
          (emitted e (snd (snd (onAudioReady kAuto env s mem n e))))
          = [SetBufferSizeInFrames s (mBufferSizeSelection e * mFramesPerBurst e)]"
    using fixed ne
    by (simp add: onAudioReady_effect emitted_effect callback_events_def set_events)
  have ev: "emitted e (snd (snd (onAudioReady kAuto env s mem n e))) =
      [GetBufferSizeInFrames s,
       SetBufferSizeInFrames s (mBufferSizeSelection e * mFramesPerBurst e),
       GetBufferSizeInFrames s, GetXRunCount s,
       TraceBeginSection n (xRunCount env) (bufferSizeAfterSet env), GetFormat s]
      @ (fill_events env n e @ latency_events env s e)"
    using fixed ne
    by (simp add: onAudioReady_effect emitted_effect callback_events_def bufferSize_events_def
        bufferSize_used_def)
  show "in_order [GetBufferSizeInFrames s,
                  SetBufferSizeInFrames s (mBufferSizeSelection e * mFramesPerBurst e),
                  GetBufferSizeInFrames s, GetXRunCount s,
                  TraceBeginSection n (xRunCount env) (bufferSizeAfterSet env)]
          (emitted e (snd (snd (onAudioReady kAuto env s mem n e))))"
    unfolding ev by (rule in_order_append) simp
qed

lemma sint_mult32: "in_int32 (sint a * sint b) \<Longrightarrow> sint (a * b :: int32_t) = sint a * sint b"
  by (simp add: in_int32_def sint_word_ariths signed_take_bit_int_eq_self)

text \<open>
  Claim C4, as amended. In a data callback with the buffer-size selection a fixed number
  \<open>M\<close> of bursts (not \<^verbatim>\<open>kBufferSizeAutomatic\<close>) and \<open>B\<close> the recorded burst size, where the
  product \<open>M * B\<close> fits in a signed 32-bit integer: if the buffer size read at entry equals
  \<open>M * B\<close>, no buffer-size request is issued and the size read at entry is the one used
  afterwards; if it differs, exactly one request is issued, for \<open>M * B\<close> frames, the buffer
  size is then read from the stream again, and that second reading is the one used
  afterwards.
\<close>

theorem onAudioReady_fixed_buffer_size:
  assumes fixed: "mBufferSizeSelection e \<noteq> kAuto"
    and fits: "in_int32 (sint (mBufferSizeSelection e) * sint (mFramesPerBurst e))"
  shows "sint (mBufferSizeSelection e * mFramesPerBurst e)
           = sint (mBufferSizeSelection e) * sint (mFramesPerBurst e)
       \<and> (sint (bufferSizeAtEntry env)
            = sint (mBufferSizeSelection e) * sint (mFramesPerBurst e) \<longrightarrow>
            filter is_SetBufferSizeInFrames
              (emitted e (snd (snd (onAudioReady kAuto env s mem n e)))) = []
            \<and> in_order [GetBufferSizeInFrames s, GetXRunCount s,
                         TraceBeginSection n (xRunCount env) (bufferSizeAtEntry env)]
                (emitted e (snd (snd (onAudioReady kAuto env s mem n e)))))
       \<and> (sint (bufferSizeAtEntry env)
            \<noteq> sint (mBufferSizeSelection e) * sint (mFramesPerBurst e) \<longrightarrow>
            filter is_SetBufferSizeInFrames
              (emitted e (snd (snd (onAudioReady kAuto env s mem n e))))
              = [SetBufferSizeInFrames s (mBufferSizeSelection e * mFramesPerBurst e)]
            \<and> in_order [GetBufferSizeInFrames s,
                         SetBufferSizeInFrames s (mBufferSizeSelection e * mFramesPerBurst e),
                         GetBufferSizeInFrames s, GetXRunCount s,
                         TraceBeginSection n (xRunCount env) (bufferSizeAfterSet env)]
                (emitted e (snd (snd (onAudioReady kAuto env s mem n e)))))"
proof -
  have p: "sint (mBufferSizeSelection e * mFramesPerBurst e)
             = sint (mBufferSizeSelection e) * sint (mFramesPerBurst e)"
    using fits by (rule sint_mult32)
  have eq: "(bufferSizeAtEntry env = mBufferSizeSelection e * mFramesPerBurst e)
              = (sint (bufferSizeAtEntry env)
                   = sint (mBufferSizeSelection e) * sint (mFramesPerBurst e))"
  proof
    assume "bufferSizeAtEntry env = mBufferSizeSelection e * mFramesPerBurst e"
    then show "sint (bufferSizeAtEntry env)
                 = sint (mBufferSizeSelection e) * sint (mFramesPerBurst e)"
      using p by simp
  next
    assume "sint (bufferSizeAtEntry env)
              = sint (mBufferSizeSelection e) * sint (mFramesPerBurst e)"
    then have "sint (bufferSizeAtEntry env)
                 = sint (mBufferSizeSelection e * mFramesPerBurst e)"
      using p by simp
    then show "bufferSizeAtEntry env = mBufferSizeSelection e * mFramesPerBurst e"
      by (rule signed_word_eqI)
  qed
  from fixed_buffer_size_requests [OF fixed, of env s mem n] p show ?thesis
    unfolding eq by blast
qed

theorem onAudioReady_fixed_buffer_size_witness:
  "mBufferSizeSelection example_engine \<noteq> 0
   \<and> in_int32 (sint (mBufferSizeSelection example_engine) * sint (mFramesPerBurst example_engine))
   \<and> sint (mBufferSizeSelection example_engine) * sint (mFramesPerBurst example_engine) = 384
   \<and> sint (bufferSizeAtEntry example_settled) = 384
   \<and> filter is_SetBufferSizeInFrames
        (emitted example_engine
           (snd (snd (onAudioReady 0 example_settled 1 example_buffer 64 example_engine)))) = []
   \<and> sint (bufferSizeAtEntry example_callback_env) \<noteq> 384
   \<and> filter is_SetBufferSizeInFrames
        (emitted example_engine
           (snd (snd (onAudioReady 0 example_callback_env 1 example_buffer 64 example_engine))))
       = [SetBufferSizeInFrames 1 384]"
proof -
  have 1: "mBufferSizeSelection example_engine \<noteq> 0" by (simp add: example_engine_def)
  have 4: "sint (mBufferSizeSelection example_engine) * sint (mFramesPerBurst example_engine) = 384"
    by (simp add: example_engine_def)
  have f: "in_int32 (sint (mBufferSizeSelection example_engine)
              * sint (mFramesPerBurst example_engine))"
    by (simp add: 4 in_int32_def)
  have 2: "sint (bufferSizeAtEntry example_settled) = 384"
    by (simp add: example_settled_def)
  have 3: "sint (bufferSizeAtEntry example_callback_env) \<noteq> 384"
    by (simp add: example_callback_env_def)
  have 5: "mBufferSizeSelection example_engine * mFramesPerBurst example_engine = 384"
    by (simp add: example_engine_def)
  note a = onAudioReady_fixed_buffer_size [OF 1 f, of example_settled 1 example_buffer 64,
      unfolded 4 5]
  note b = onAudioReady_fixed_buffer_size [OF 1 f, of example_callback_env 1 example_buffer 64,
      unfolded 4 5]
  from a 2 have a': "filter is_SetBufferSizeInFrames
        (emitted example_engine
           (snd (snd (onAudioReady 0 example_settled 1 example_buffer 64 example_engine)))) = []"
    by blast
  from b 3 have b': "filter is_SetBufferSizeInFrames
        (emitted example_engine
           (snd (snd (onAudioReady 0 example_callback_env 1 example_buffer 64 example_engine))))
       = [SetBufferSizeInFrames 1 384]"
    by blast
  show ?thesis using 1 f 4 2 3 a' b' by blast
qed

text \<open>
  The claim as stated fails where the product leaves the 32-bit range. With a selection
  of 65536 bursts of 65536 frames, \<open>M * B\<close> is \<open>2 ^ 32\<close>; the buffer size read at entry, 192,
  differs from it, and the one request the callback issues is for 0 frames.
\<close>

theorem wrapped_burst_product_requests_zero_frames:
  "mBufferSizeSelection example_wide_engine \<noteq> 0
   \<and> sint (mBufferSizeSelection example_wide_engine) * sint (mFramesPerBurst example_wide_engine)
       = 4294967296
   \<and> sint (bufferSizeAtEntry example_callback_env) = 192
   \<and> filter is_SetBufferSizeInFrames
        (emitted example_wide_engine
           (snd (snd (onAudioReady 0 example_callback_env 1 example_buffer 64
                        example_wide_engine))))
       = [SetBufferSizeInFrames 1 0]"
  by (simp add: onAudioReady_def onAudioReady_bufferSize_def onAudioReady_fill_def
      onAudioReady_latency_def calculateCurrentOutputLatencyMillis_def memset_zero_def
      int64_div_def OBOE_NANOS_PER_SECOND_def signed_divide_int_def
      emit_def emitted_def Let_def example_wide_engine_def example_engine_def
      example_callback_env_def)

lemma unat_scast_nonneg:
  assumes "0 \<le> sint (x :: int32_t)"
  shows "unat (scast x :: size_t) = nat (sint x)"
proof -
  have "sint x < 2 ^ 31" using sint_lt [of x] by simp
  then have lt: "sint x < 2 ^ 64" by simp
  have "uint (scast x :: size_t) = take_bit 64 (sint x)"
    unfolding scast_eq uint_word_of_int_eq by simp
  also have "\<dots> = sint x" using assms lt by (rule take_bit_int_eq_self)
  finally show ?thesis by (simp only: unat_eq_nat_uint)
qed

lemma nat_sint_bound: "nat (sint (x :: int32_t)) < 2 ^ 31"
  using sint_lt [of x] by (simp add: nat_less_iff)

lemma product_fits:
  assumes "c < (2::nat) ^ 31" and "n < (2::nat) ^ 31" and "k \<le> 4"
  shows "k * c * n < 2 ^ 64"
proof -
  have "c * n \<le> (2 ^ 31 - 1) * (2 ^ 31 - 1)"
    using assms(1,2) by (intro mult_mono) simp_all
  then have "4 * (c * n) < 2 ^ 64" by simp
  moreover have "k * c * n \<le> 4 * (c * n)" using assms(3) by (simp add: mult.assoc)
  ultimately show ?thesis by linarith
qed

lemma unat_size_product:
  assumes c: "0 \<le> sint (ch :: int32_t)" and n: "0 \<le> sint (numFrames :: int32_t)"
    and k: "unat (k :: size_t) \<le> 4"
  shows "unat (k * scast ch * scast numFrames :: size_t)
           = unat k * nat (sint ch) * nat (sint numFrames)"
proof -
  let ?c = "nat (sint ch)" and ?n = "nat (sint numFrames)"
  have fits: "unat k * ?c * ?n < 2 ^ 64"
    using nat_sint_bound [of ch] nat_sint_bound [of numFrames] k by (rule product_fits)
  have "unat (k * scast ch * scast numFrames :: size_t)
          = unat (k * scast ch :: size_t) * unat (scast numFrames :: size_t) mod 2 ^ 64"
    by (simp add: unat_word_ariths)
  also have "\<dots> = (unat k * ?c mod 2 ^ 64) * ?n mod 2 ^ 64"
    by (simp add: unat_word_ariths unat_scast_nonneg c n)
  also have "\<dots> = unat k * ?c * ?n mod 2 ^ 64"
    by (simp add: mod_mult_left_eq)
  also have "\<dots> = unat k * ?c * ?n" using fits by simp
  finally show ?thesis .
qed

lemma zeroed_bytes_exact:
  assumes n: "0 \<le> sint numFrames" and c: "0 \<le> sint (mSampleChannels e)"
  shows "unat (zeroed_bytes env numFrames e)
           = nat (sint numFrames) * nat (sint (mSampleChannels e)) * sample_size (streamFormat env)"
proof (cases "streamFormat env = OBOE_AUDIO_FORMAT_PCM_FLOAT")
  case True
  have "unat (4 * scast (mSampleChannels e) * scast numFrames :: size_t)
          = unat (4 :: size_t) * nat (sint (mSampleChannels e)) * nat (sint numFrames)"
    using c n by (rule unat_size_product) simp
  with True show ?thesis by (simp add: zeroed_bytes_def sample_size_def)
next
  case False
  have "unat (2 * scast (mSampleChannels e) * scast numFrames :: size_t)
          = unat (2 :: size_t) * nat (sint (mSampleChannels e)) * nat (sint numFrames)"
    using c n by (rule unat_size_product) simp
  with False show ?thesis by (simp add: zeroed_bytes_def sample_size_def)
qed

lemma render_events:
  "filter is_Render (bufferSize_events kAuto env s e) = []"
  "\<not> mIsToneOn e \<Longrightarrow> filter is_Render (fill_events env n e) = []"
  "filter is_Render (latency_events env s e) = []"
  by (simp_all add: bufferSize_events_def fill_events_def latency_events_def split: sum.splits)

lemma memset_events:
  "filter is_Memset (bufferSize_events kAuto env s e) = []"
  "\<not> mIsToneOn e \<Longrightarrow> filter is_Memset (fill_events env n e) = [Memset (zeroed_bytes env n e)]"
  "filter is_Memset (latency_events env s e) = []"
  by (simp_all add: bufferSize_events_def fill_events_def latency_events_def split: sum.splits)

text \<open>
  Claim C9. In a data callback with the tone disabled, for a frame count \<open>N \<ge> 0\<close> and a
  channel count \<open>C \<ge> 0\<close>, exactly the first \<open>N * C * sizeof(format)\<close> bytes of the buffer
  are set to zero by one \<^verbatim>\<open>memset\<close>, the rest of the buffer is untouched, and no renderer
  is called; \<open>sizeof\<close> is 4 for the float format and 2 for the 16-bit integer format.
\<close>

theorem onAudioReady_tone_off_zero_fills:
  assumes off: "\<not> mIsToneOn e"
    and n: "0 \<le> sint numFrames"
    and c: "0 \<le> sint (mSampleChannels e)"
  shows "fst (snd (onAudioReady kAuto env s audioData numFrames e))
           = (\<lambda>i. if i < nat (sint numFrames) * nat (sint (mSampleChannels e))
                           * sample_size (streamFormat env)
                   then 0 else audioData i)
       \<and> filter is_Memset (emitted e (snd (snd (onAudioReady kAuto env s audioData numFrames e))))
           = [Memset (of_nat (nat (sint numFrames) * nat (sint (mSampleChannels e))
                                * sample_size (streamFormat env)))]
       \<and> filter is_Render (emitted e (snd (snd (onAudioReady kAuto env s audioData numFrames e))))
           = []
       \<and> sample_size OBOE_AUDIO_FORMAT_PCM_FLOAT = 4
       \<and> sample_size OBOE_AUDIO_FORMAT_PCM_I16 = 2"
proof -
  let ?k = "nat (sint numFrames) * nat (sint (mSampleChannels e)) * sample_size (streamFormat env)"
  have u: "unat (zeroed_bytes env numFrames e) = ?k"
    using n c by (rule zeroed_bytes_exact)
  have z: "zeroed_bytes env numFrames e = of_nat ?k"
    by (simp add: u [symmetric])
  have "fst (snd (onAudioReady kAuto env s audioData numFrames e))
          = (\<lambda>i. if i < ?k then 0 else audioData i)"
    using off by (simp add: onAudioReady_effect filled_def u)
  moreover have "filter is_Memset
        (emitted e (snd (snd (onAudioReady kAuto env s audioData numFrames e))))
      = [Memset (of_nat ?k)]"
    using off
    by (simp add: onAudioReady_effect emitted_effect callback_events_def memset_events z)
  moreover have "filter is_Render
        (emitted e (snd (snd (onAudioReady kAuto env s audioData numFrames e)))) = []"
    using off
    by (simp add: onAudioReady_effect emitted_effect callback_events_def render_events)
  ultimately show ?thesis by (simp add: sample_size_def)
qed

theorem onAudioReady_tone_off_zero_fills_witness:
  "\<not> mIsToneOn example_engine
   \<and> 0 \<le> sint (64 :: int32_t)
   \<and> 0 \<le> sint (mSampleChannels example_engine)
   \<and> fst (snd (onAudioReady 0 example_callback_env 1 example_buffer 64 example_engine)) 511 = 0
   \<and> fst (snd (onAudioReady 0 example_callback_env 1 example_buffer 64 example_engine)) 512 = 255
   \<and> filter is_Memset
        (emitted example_engine
           (snd (snd (onAudioReady 0 example_callback_env 1 example_buffer 64 example_engine))))
       = [Memset 512]"
proof -
  have 1: "\<not> mIsToneOn example_engine" by (simp add: example_engine_def)
  have 2: "0 \<le> sint (64 :: int32_t)" by simp
  have 3: "0 \<le> sint (mSampleChannels example_engine)" by (simp add: example_engine_def)
  have 4: "nat (sint (64 :: int32_t)) * nat (sint (mSampleChannels example_engine))
             * sample_size (streamFormat example_callback_env) = 512"
    by (simp add: example_engine_def example_callback_env_def sample_size_def)
  note a = onAudioReady_tone_off_zero_fills [OF 1 2 3, of 0 example_callback_env 1 example_buffer,
      unfolded 4]
  show ?thesis using a 1 2 3 by (simp add: example_buffer_def)
qed

subsection \<open>Restart requests on several threads\<close>














text \<open>A thread that runs alone does what \<open>restartStream\<close> does.\<close>

lemma restartStream_as_thread:
  "eng (run [(0, env), (0, env), (0, env), (0, env), (0, env)] (requests 1 e))
     = restartStream env e
   \<and> list_all returned
        (threads (run [(0, env), (0, env), (0, env), (0, env), (0, env)] (requests 1 e)))"
proof (cases "mRestartingLock e")
  case True
  then show ?thesis
    by (simp add: requests_def thread_step_def restartStream_def Let_def emit_def)
next
  case False
  then show ?thesis
    by (simp add: requests_def thread_step_def restartStream_def Let_def emit_def)
qed







end
